theory Spec2Isabelle
  imports Complex_Main "HOL-Library.Product_Lexorder"
begin

section \<open>JavaScript values used by the delivery pipeline\<close>

text \<open>
  A thrown JavaScript \<^verbatim>\<open>Error\<close> is a value carrying its \<^verbatim>\<open>message\<close>. Every fallible
  operation of the model returns \<open>js_error + 'a\<close>, with \<open>Inl\<close> for the exception.
\<close>

datatype js_error = Error string

fun message_of :: "js_error \<Rightarrow> string" where
  "message_of (Error m) = m"

text \<open>
  A JavaScript number is a double. A finite double is represented by its exact rational
  value; the two infinities and NaN are separate values. Signed zero is not distinguished,
  and the rounding of an in-range arithmetic result to the nearest double is left out
  (the result is kept exactly); the overflow of a result beyond the double range to an
  infinity is kept: a result whose magnitude reaches \<open>2^1024 - 2^970\<close> (the midpoint
  between the largest double and \<open>2^1024\<close>) rounds to an infinity.
\<close>

datatype jsnum = Fin rat | PosInf | NegInf | NaN

definition DBL_OVERFLOW :: rat where
  "DBL_OVERFLOW = 2 ^ 1024 - 2 ^ 970"

definition js_round :: "rat \<Rightarrow> jsnum" where
  "js_round r =
     (if DBL_OVERFLOW \<le> r then PosInf
      else if r \<le> - DBL_OVERFLOW then NegInf
      else Fin r)"

fun Number_isFinite :: "jsnum \<Rightarrow> bool" where
  "Number_isFinite (Fin r) = True"
| "Number_isFinite PosInf = False"
| "Number_isFinite NegInf = False"
| "Number_isFinite NaN = False"

text \<open>The comparisons \<^verbatim>\<open>value >= 0\<close> and \<^verbatim>\<open>value < 0\<close>; both are false on NaN.\<close>

fun js_ge0 :: "jsnum \<Rightarrow> bool" where
  "js_ge0 (Fin r) = (0 \<le> r)"
| "js_ge0 PosInf = True"
| "js_ge0 NegInf = False"
| "js_ge0 NaN = False"

fun js_lt0 :: "jsnum \<Rightarrow> bool" where
  "js_lt0 (Fin r) = (r < 0)"
| "js_lt0 PosInf = False"
| "js_lt0 NegInf = True"
| "js_lt0 NaN = False"

text \<open>The product \<^verbatim>\<open>a * b\<close> of two numbers.\<close>

fun js_sign_inf :: "bool \<Rightarrow> jsnum" where
  "js_sign_inf True = PosInf"
| "js_sign_inf False = NegInf"

fun js_mul :: "jsnum \<Rightarrow> jsnum \<Rightarrow> jsnum" where
  "js_mul NaN y = NaN"
| "js_mul x NaN = NaN"
| "js_mul (Fin a) (Fin b) = js_round (a * b)"
| "js_mul (Fin a) PosInf = (if a = 0 then NaN else js_sign_inf (0 < a))"
| "js_mul (Fin a) NegInf = (if a = 0 then NaN else js_sign_inf (a < 0))"
| "js_mul PosInf (Fin b) = (if b = 0 then NaN else js_sign_inf (0 < b))"
| "js_mul NegInf (Fin b) = (if b = 0 then NaN else js_sign_inf (b < 0))"
| "js_mul PosInf PosInf = PosInf"
| "js_mul PosInf NegInf = NegInf"
| "js_mul NegInf PosInf = NegInf"
| "js_mul NegInf NegInf = PosInf"

text \<open>The quotient \<^verbatim>\<open>a / b\<close>.\<close>

fun js_div :: "jsnum \<Rightarrow> jsnum \<Rightarrow> jsnum" where
  "js_div NaN y = NaN"
| "js_div x NaN = NaN"
| "js_div (Fin a) (Fin b) =
     (if b = 0 then (if a = 0 then NaN else js_sign_inf (0 < a)) else js_round (a / b))"
| "js_div (Fin a) PosInf = Fin 0"
| "js_div (Fin a) NegInf = Fin 0"
| "js_div PosInf (Fin b) = js_sign_inf (0 \<le> b)"
| "js_div NegInf (Fin b) = js_sign_inf (b < 0)"
| "js_div PosInf PosInf = NaN"
| "js_div PosInf NegInf = NaN"
| "js_div NegInf PosInf = NaN"
| "js_div NegInf NegInf = NaN"

text \<open>\<^verbatim>\<open>Math.ceil\<close> and \<^verbatim>\<open>Math.round\<close> (half rounds up).\<close>

fun Math_ceil :: "jsnum \<Rightarrow> jsnum" where
  "Math_ceil (Fin r) = Fin (of_int \<lceil>r\<rceil>)"
| "Math_ceil x = x"

fun Math_round :: "jsnum \<Rightarrow> jsnum" where
  "Math_round (Fin r) = Fin (of_int \<lfloor>r + 1 / 2\<rfloor>)"
| "Math_round x = x"

text \<open>
  A value produced by \<^verbatim>\<open>JSON.parse\<close>. An object is the list of its properties; the
  property \<open>k\<close> of a value, \<^verbatim>\<open>json?.k\<close>, is undefined (\<open>None\<close>) on null, on a value that
  is not an object and on an object without it.
\<close>

datatype json =
    JNull
  | JBool bool
  | JNum jsnum
  | JStr string
  | JArr "json list"
  | JObj "(string \<times> json) list"

fun property :: "json \<Rightarrow> string \<Rightarrow> json option" where
  "property (JObj fields) k = map_of fields k"
| "property j k = None"

text \<open>\<^verbatim>\<open>!json || typeof json !== 'object'\<close> lets arrays and objects through.\<close>

fun is_object :: "json \<Rightarrow> bool" where
  "is_object (JObj fields) = True"
| "is_object (JArr items) = True"
| "is_object j = False"

text \<open>Decimal digits of an integer, as a template literal prints it.\<close>

fun show_nat :: "nat \<Rightarrow> string" where
  "show_nat n =
     (if n < 10 then [''0123456789'' ! n]
      else show_nat (n div 10) @ [''0123456789'' ! (n mod 10)])"

declare show_nat.simps [simp del]

definition show_int :: "int \<Rightarrow> string" where
  "show_int i = (if i < 0 then ''-'' @ show_nat (nat (- i)) else show_nat (nat i))"

text \<open>
  The payload of a webhook call, \<^verbatim>\<open>DiscordExecuteWebhookBody\<close>: every field is optional;
  embeds and allowed mentions are kept as JSON values.
\<close>

record DiscordExecuteWebhookBody =
  content :: "string option"
  username :: "string option"
  avatar_url :: "string option"
  thread_name :: "string option"
  embeds :: "json option"
  allowed_mentions :: "json option"

text \<open>
  The built-in functions the code calls and the model does not implement are parameters:
  \<^verbatim>\<open>JSON.parse\<close> (raising a SyntaxError on text that is not JSON), at the type of a
  response and at the type of a stored payload, \<^verbatim>\<open>JSON.stringify\<close> of a payload,
  \<^verbatim>\<open>Number(raw)\<close> of a header string, and the decimal text of a number in a template
  literal.
\<close>

record builtins =
  JSON_parse :: "string \<Rightarrow> js_error + json"
  JSON_parse_body :: "string \<Rightarrow> js_error + DiscordExecuteWebhookBody"
  JSON_stringify :: "DiscordExecuteWebhookBody \<Rightarrow> string"
  Number_of :: "string \<Rightarrow> jsnum"
  Number_toString :: "jsnum \<Rightarrow> string"

section \<open>The persistent queue (persistent-queue.ts over the table of utils/db.ts)\<close>

text \<open>
  One row of the table \<^verbatim>\<open>discord_queue\<close>. The column \<^verbatim>\<open>id\<close> is \<open>row_id\<close>. A nullable
  column is an option, \<open>None\<close> for SQL NULL.
\<close>

record db_row =
  row_id :: int
  session_id :: string
  thread_id :: "string option"
  webhook_body :: string
  created_at :: int
  retry_count :: "int option"
  last_error :: "string option"

text \<open>
  The table: its rows, in the order they were inserted, and the largest id the table has
  ever held (what AUTOINCREMENT keeps in \<^verbatim>\<open>sqlite_sequence\<close>).
\<close>

record queue_db =
  rows :: "db_row list"
  seq :: int

definition empty_db :: queue_db where
  "empty_db = \<lparr>rows = [], seq = 0\<rparr>"

text \<open>
  \<^verbatim>\<open>QueueMessage\<close>, as \<^verbatim>\<open>dequeue\<close> returns it (\<open>id'\<close> is its field \<^verbatim>\<open>id\<close>); the argument
  of \<^verbatim>\<open>enqueue\<close> has the first three fields only.
\<close>

record new_message =
  sessionId :: string
  threadId :: "string option"
  webhookBody :: DiscordExecuteWebhookBody

record QueueMessage = new_message +
  id' :: int
  createdAt :: int
  retryCount :: "int option"
  lastError :: "string option"

text \<open>
  \<^verbatim>\<open>INSERT INTO discord_queue (session_id, thread_id, webhook_body, created_at)\<close>: the id is
  one more than the largest id the table holds or has held, \<^verbatim>\<open>retry_count\<close> takes its
  default 0 and \<^verbatim>\<open>last_error\<close> is NULL. \<open>now\<close> is what \<^verbatim>\<open>Date.now()\<close> returns.
\<close>

definition fresh_id :: "queue_db \<Rightarrow> int" where
  "fresh_id db = fold max (map row_id (rows db)) (seq db) + 1"

definition enqueue :: "builtins \<Rightarrow> int \<Rightarrow> new_message \<Rightarrow> queue_db \<Rightarrow> queue_db" where
  "enqueue B now message db =
     \<lparr>rows = rows db @
        [\<lparr>row_id = fresh_id db,
          session_id = sessionId message,
          thread_id = threadId message,
          webhook_body = JSON_stringify B (webhookBody message),
          created_at = now,
          retry_count = Some 0,
          last_error = None\<rparr>],
      seq = fresh_id db\<rparr>"

text \<open>\<^verbatim>\<open>SELECT * FROM discord_queue ORDER BY created_at ASC, id ASC LIMIT ?\<close>.\<close>

definition fifo_key :: "db_row \<Rightarrow> int \<times> int" where
  "fifo_key r = (created_at r, row_id r)"

definition select_oldest :: "nat \<Rightarrow> queue_db \<Rightarrow> db_row list" where
  "select_oldest limit db = take limit (sort_key fifo_key (rows db))"

text \<open>The arrow function of \<^verbatim>\<open>rows.map\<close>: the stored text is parsed back.\<close>

definition row_to_message :: "builtins \<Rightarrow> db_row \<Rightarrow> js_error + QueueMessage" where
  "row_to_message B row =
     (case JSON_parse_body B (webhook_body row) of
        Inl e \<Rightarrow> Inl e
      | Inr b \<Rightarrow>
          Inr \<lparr>sessionId = session_id row,
               threadId = thread_id row,
               webhookBody = b,
               id' = row_id row,
               createdAt = created_at row,
               retryCount = retry_count row,
               lastError = last_error row\<rparr>)"

text \<open>\<^verbatim>\<open>Array.prototype.map\<close> with a callback that may throw: the first exception ends it.\<close>

fun map_rows :: "('a \<Rightarrow> js_error + 'b) \<Rightarrow> 'a list \<Rightarrow> js_error + 'b list" where
  "map_rows f [] = Inr []"
| "map_rows f (x # xs) =
     (case f x of
        Inl e \<Rightarrow> Inl e
      | Inr y \<Rightarrow> (case map_rows f xs of Inl e \<Rightarrow> Inl e | Inr ys \<Rightarrow> Inr (y # ys)))"

text \<open>\<^verbatim>\<open>dequeue\<close> returns the messages and leaves the table as it is.\<close>

definition dequeue ::
  "builtins \<Rightarrow> nat \<Rightarrow> queue_db \<Rightarrow> (js_error + QueueMessage list) \<times> queue_db" where
  "dequeue B limit db = (map_rows (row_to_message B) (select_oldest limit db), db)"

text \<open>\<^verbatim>\<open>DELETE FROM discord_queue WHERE id = ?\<close>.\<close>

definition delete :: "int \<Rightarrow> queue_db \<Rightarrow> queue_db" where
  "delete i db = db\<lparr>rows := filter (\<lambda>r. row_id r \<noteq> i) (rows db)\<rparr>"

text \<open>\<^verbatim>\<open>UPDATE discord_queue SET thread_id = ? WHERE session_id = ? AND thread_id IS NULL\<close>.\<close>

definition updateThreadId :: "string \<Rightarrow> string \<Rightarrow> queue_db \<Rightarrow> queue_db" where
  "updateThreadId sid tid db =
     db\<lparr>rows :=
          map (\<lambda>r. if session_id r = sid \<and> thread_id r = None
                    then r\<lparr>thread_id := Some tid\<rparr> else r)
            (rows db)\<rparr>"

text \<open>\<^verbatim>\<open>SELECT COUNT(*) as count FROM discord_queue\<close>.\<close>

definition count :: "queue_db \<Rightarrow> nat" where
  "count db = length (rows db)"

text \<open>\<^verbatim>\<open>UPDATE discord_queue SET retry_count = ?, last_error = ? WHERE id = ?\<close>.\<close>

definition updateRetryCount :: "int \<Rightarrow> int \<Rightarrow> string \<Rightarrow> queue_db \<Rightarrow> queue_db" where
  "updateRetryCount i n err db =
     db\<lparr>rows :=
          map (\<lambda>r. if row_id r = i then r\<lparr>retry_count := Some n, last_error := Some err\<rparr> else r)
            (rows db)\<rparr>"

section \<open>The webhook transport (postDiscordWebhook of index.ts)\<close>

text \<open>The constants of index.ts that the transport uses.\<close>

definition HTTP_STATUS_TOO_MANY_REQUESTS :: nat where
  "HTTP_STATUS_TOO_MANY_REQUESTS = 429"

definition MS_PER_SECOND :: jsnum where
  "MS_PER_SECOND = Fin 1000"

definition DEFAULT_RATE_LIMIT_WAIT_MS :: jsnum where
  "DEFAULT_RATE_LIMIT_WAIT_MS = Fin 10000"

text \<open>
  \<^verbatim>\<open>DiscordWebhookMessageResponse\<close>, the result of a call with \<^verbatim>\<open>wait\<close>: \<open>message_id\<close> is its
  field \<^verbatim>\<open>id\<close>.
\<close>

record DiscordWebhookMessageResponse =
  message_id :: string
  channel_id :: string

text \<open>The argument of \<^verbatim>\<open>maybeAlertError\<close>; the variants are \<^verbatim>\<open>'info' | 'success' | 'warning' | 'error'\<close>.\<close>

datatype ToastVariant = ToastInfo | ToastSuccess | ToastWarning | ToastError

record alert =
  key :: string
  title :: string
  message :: string
  variant :: ToastVariant

text \<open>
  The argument \<^verbatim>\<open>input\<close> of \<^verbatim>\<open>postDiscordWebhook\<close>, its fields \<^verbatim>\<open>webhookUrl\<close>, \<^verbatim>\<open>threadId\<close>,
  \<^verbatim>\<open>wait\<close> and \<^verbatim>\<open>body\<close>; an optional field that is absent is \<open>None\<close>.
\<close>

record post_input =
  webhookUrl_in :: string
  threadId_in :: "string option"
  wait_in :: "bool option"
  body_in :: DiscordExecuteWebhookBody

text \<open>
  What \<^verbatim>\<open>fetchImpl(url, requestInit)\<close> is called with: the webhook URL, the query parameters
  set on it, and the serialized body (the method and the content type are constant).
\<close>

record request =
  url :: string
  search :: "(string \<times> string) list"
  request_body :: string

text \<open>
  A \<^verbatim>\<open>Response\<close>: \<open>header_Retry_After\<close> is \<^verbatim>\<open>headers.get('Retry-After')\<close>, \<open>None\<close> when the
  header is absent; \<open>body_text\<close> is what \<^verbatim>\<open>text()\<close> resolves to, \<open>None\<close> when reading the body
  fails. \<^verbatim>\<open>response.ok\<close> holds for the statuses 200 to 299.
\<close>

record response =
  status :: nat
  statusText :: string
  header_Retry_After :: "string option"
  body_text :: "string option"

definition ok :: "response \<Rightarrow> bool" where
  "ok r = (200 \<le> status r \<and> status r \<le> 299)"

text \<open>
  The calls a run of the transport makes, in order: to \<^verbatim>\<open>fetchImpl\<close>, to \<^verbatim>\<open>sleepImpl\<close> and to
  \<^verbatim>\<open>deps.maybeAlertError\<close>. The last two are taken to resolve. \<^verbatim>\<open>fetchImpl\<close> is an oracle: its
  answer to the \<open>k\<close>-th fetch of a run is a response, or the exception of a network failure.
\<close>

datatype io_call = Fetch request | SleepImpl jsnum | AlertError alert

record PostDiscordWebhookDeps =
  showErrorAlert :: bool
  waitOnRateLimitMs :: jsnum
  fetchImpl :: "nat \<Rightarrow> request \<Rightarrow> js_error + response"

text \<open>
  \<^verbatim>\<open>withQuery\<close> sets every parameter whose value is not falsy (absent, or the empty string).
  The webhook URL is taken to be a valid URL without these parameters and the body to be
  serializable, so that building the request does not raise.
\<close>

definition withQuery :: "string \<Rightarrow> (string \<times> string option) list \<Rightarrow> string \<times> (string \<times> string) list" where
  "withQuery u params =
     (u, concat (map (\<lambda>(k, v). case v of None \<Rightarrow> [] | Some s \<Rightarrow> if s = [] then [] else [(k, s)]) params))"

definition build_request :: "builtins \<Rightarrow> post_input \<Rightarrow> request" where
  "build_request B input =
     (let q = withQuery (webhookUrl_in input)
                [(''thread_id'', threadId_in input),
                 (''wait'', if wait_in input = Some True then Some ''true'' else None)]
      in \<lparr>url = fst q, search = snd q, request_body = JSON_stringify B (body_in input)\<rparr>)"

text \<open>
  The two local functions of lines 1140 to 1160: empty text, text that is not JSON and a
  \<^verbatim>\<open>retry_after\<close> that is not a finite number \<open>\<ge> 0\<close> give \<^verbatim>\<open>undefined\<close>; so do an absent or
  empty header and a header whose \<^verbatim>\<open>Number(raw)\<close> is not finite or is negative.
\<close>

definition parseRetryAfterFromText :: "builtins \<Rightarrow> string \<Rightarrow> jsnum option" where
  "parseRetryAfterFromText B txt =
     (if txt = [] then None
      else case JSON_parse B txt of
             Inl e \<Rightarrow> None
           | Inr j \<Rightarrow>
               (case property j ''retry_after'' of
                  Some (JNum v) \<Rightarrow> if Number_isFinite v \<and> js_ge0 v then Some v else None
                | _ \<Rightarrow> None))"

definition parseRetryAfterFromHeader :: "builtins \<Rightarrow> response \<Rightarrow> jsnum option" where
  "parseRetryAfterFromHeader B r =
     (case header_Retry_After r of
        None \<Rightarrow> None
      | Some raw \<Rightarrow>
          if raw = [] then None
          else (let v = Number_of B raw
                in if \<not> Number_isFinite v \<or> js_lt0 v then None else Some v))"

text \<open>
  \<^verbatim>\<open>await response.text().catch(() => '')\<close> and \<^verbatim>\<open>await response.json().catch(() => undefined)\<close>.
\<close>

definition response_text :: "response \<Rightarrow> string" where
  "response_text r = (case body_text r of None \<Rightarrow> [] | Some t \<Rightarrow> t)"

definition response_json :: "builtins \<Rightarrow> response \<Rightarrow> json option" where
  "response_json B r =
     (case body_text r of
        None \<Rightarrow> None
      | Some t \<Rightarrow> (case JSON_parse B t of Inl e \<Rightarrow> None | Inr j \<Rightarrow> Some j))"

text \<open>
  What a successful response makes the call return (lines 1164 to 1173, and again 1209 to
  1218): nothing without \<^verbatim>\<open>wait\<close>; with it, the pair of \<^verbatim>\<open>id\<close> and \<^verbatim>\<open>channel_id\<close> when the body
  parses to an object that has both as strings.
\<close>

definition message_response ::
  "builtins \<Rightarrow> bool option \<Rightarrow> response \<Rightarrow> DiscordWebhookMessageResponse option" where
  "message_response B wait r =
     (if wait \<noteq> Some True then None
      else case response_json B r of
             None \<Rightarrow> None
           | Some j \<Rightarrow>
               if \<not> is_object j then None
               else (case property j ''channel_id'' of
                       Some (JStr channelId) \<Rightarrow>
                         (case property j ''id'' of
                            Some (JStr messageId) \<Rightarrow>
                              Some \<lparr>message_id = messageId, channel_id = channelId\<rparr>
                          | _ \<Rightarrow> None)
                     | _ \<Rightarrow> None))"

text \<open>The message of the \<^verbatim>\<open>Error\<close> thrown, and the two alerts.\<close>

definition failure_message :: "response \<Rightarrow> string" where
  "failure_message r =
     ''Discord webhook failed: '' @ show_nat (status r) @ '' '' @ statusText r @ '' '' @ response_text r"

definition rate_limit_alert :: "builtins \<Rightarrow> response \<Rightarrow> jsnum \<Rightarrow> alert" where
  "rate_limit_alert B retryResponse waitMs =
     \<lparr>key = ''discord_webhook_error:'' @ show_nat (status retryResponse),
      title = ''Discord webhook rate-limited'',
      message = ''Discord webhook returned '' @ show_nat HTTP_STATUS_TOO_MANY_REQUESTS @
                '' (rate limited). Waited '' @
                Number_toString B (Math_round (js_div waitMs MS_PER_SECOND)) @
                ''s and retried, but it still failed.'',
      variant = ToastWarning\<rparr>"

definition error_alert :: "response \<Rightarrow> alert" where
  "error_alert r =
     \<lparr>key = ''discord_webhook_error:'' @ show_nat (status r),
      title = ''Discord webhook error'',
      message = ''Discord webhook failed: '' @ show_nat (status r) @ '' '' @ statusText r,
      variant = ToastError\<rparr>"

text \<open>
  \<^verbatim>\<open>waitMs\<close> of lines 1178 to 1186: the body's value, else (\<^verbatim>\<open>??\<close>) the header's, in seconds,
  times \<^verbatim>\<open>MS_PER_SECOND\<close> and rounded up; the configured wait when neither is given.
\<close>

definition rate_limit_wait :: "builtins \<Rightarrow> PostDiscordWebhookDeps \<Rightarrow> response \<Rightarrow> jsnum" where
  "rate_limit_wait B deps r =
     (let retryAfterSeconds =
            (case parseRetryAfterFromText B (response_text r) of
               Some v \<Rightarrow> Some v
             | None \<Rightarrow> parseRetryAfterFromHeader B r)
      in case retryAfterSeconds of
           None \<Rightarrow> waitOnRateLimitMs deps
         | Some s \<Rightarrow> Math_ceil (js_mul s MS_PER_SECOND))"

text \<open>
  \<^verbatim>\<open>postDiscordWebhook\<close> returns the calls it made and its result: \<open>Inl\<close> for the exception
  it throws (its own \<^verbatim>\<open>Error\<close>, or the one of a fetch that failed), \<open>Inr\<close> for the value it
  returns, \<open>None\<close> being \<^verbatim>\<open>undefined\<close>.
\<close>

definition postDiscordWebhook ::
  "builtins \<Rightarrow> PostDiscordWebhookDeps \<Rightarrow> post_input \<Rightarrow>
     io_call list \<times> (js_error + DiscordWebhookMessageResponse option)" where
  "postDiscordWebhook B deps input =
     (let req = build_request B input in
      case fetchImpl deps 0 req of
        Inl e \<Rightarrow> ([Fetch req], Inl e)
      | Inr r \<Rightarrow>
          if ok r then ([Fetch req], Inr (message_response B (wait_in input) r))
          else if status r = HTTP_STATUS_TOO_MANY_REQUESTS then
            (let waitMs = rate_limit_wait B deps r in
             case fetchImpl deps 1 req of
               Inl e \<Rightarrow> ([Fetch req, SleepImpl waitMs, Fetch req], Inl e)
             | Inr retryResponse \<Rightarrow>
                 if \<not> ok retryResponse then
                   ([Fetch req, SleepImpl waitMs, Fetch req] @
                      (if showErrorAlert deps
                       then [AlertError (rate_limit_alert B retryResponse waitMs)] else []),
                    Inl (Error (failure_message retryResponse)))
                 else ([Fetch req, SleepImpl waitMs, Fetch req],
                       Inr (message_response B (wait_in input) retryResponse)))
          else ([Fetch req] @ (if showErrorAlert deps then [AlertError (error_alert r)] else []),
                Inl (Error (failure_message r))))"

section \<open>The delivery worker (queue/worker.ts)\<close>

text \<open>The constants of worker.ts.\<close>

definition POLL_INTERVAL_MS :: nat where
  "POLL_INTERVAL_MS = 1000"

definition BATCH_SIZE :: nat where
  "BATCH_SIZE = 1"

definition MAX_RETRIES :: int where
  "MAX_RETRIES = 5"

text \<open>
  \<^verbatim>\<open>QueueWorkerDeps\<close>. The queue is the table held in the worker's state below. The injected
  \<^verbatim>\<open>postWebhook\<close> is an oracle: how the \<open>k\<close>-th call of the worker's life settles, with \<open>Inl\<close>
  for a rejection (\<^verbatim>\<open>postDeps\<close> is part of it). \<open>deps_username\<close> is the field \<^verbatim>\<open>username\<close>.
  \<open>onThreadCreated\<close> says whether the optional callback was supplied; its calls are recorded.
\<close>

record QueueWorkerDeps =
  postWebhook :: "nat \<Rightarrow> post_input \<Rightarrow> js_error + DiscordWebhookMessageResponse option"
  webhookUrl :: string
  deps_username :: "string option"
  avatarUrl :: "string option"
  buildThreadName :: "string \<Rightarrow> string"
  onThreadCreated :: bool

text \<open>
  The calls the worker makes on its dependencies, in order, and \<open>Stop\<close> for a \<^verbatim>\<open>stop()\<close> that
  arrives from outside. The queue calls, the callback and \<^verbatim>\<open>maybeAlertError\<close> are taken not to
  raise.
\<close>

datatype worker_call =
    Dequeue nat
  | PostWebhook post_input
  | UpdateThreadId string string
  | OnThreadCreated string string
  | Delete int
  | UpdateRetryCount int int string
  | MaybeAlertError alert
  | Sleep nat
  | Stop

text \<open>
  The worker runs until it awaits; only then can \<^verbatim>\<open>stop()\<close> be called from outside. The
  schedule says whether it is, during the \<open>k\<close>-th delivery and during the \<open>k\<close>-th sleep.
  No message is enqueued and \<^verbatim>\<open>start()\<close> is not called while a loop runs.
\<close>

record schedule =
  stop_in_flight :: "nat \<Rightarrow> bool"
  stop_in_sleep :: "nat \<Rightarrow> bool"

text \<open>
  The worker's state: the table behind \<^verbatim>\<open>deps.queue\<close>, \<^verbatim>\<open>isRunning\<close>, the \<^verbatim>\<open>aborted\<close> flag of
  every \<^verbatim>\<open>AbortController\<close> created so far with the index of the current one
  (\<^verbatim>\<open>this.abortController\<close>, \<open>None\<close> before the first start), and the calls made so far.
\<close>

record worker =
  queue :: queue_db
  isRunning :: bool
  abortController :: "nat option"
  signals :: "bool list"
  calls :: "worker_call list"

fun is_post :: "worker_call \<Rightarrow> bool" where
  "is_post (PostWebhook i) = True"
| "is_post c = False"

fun is_sleep :: "worker_call \<Rightarrow> bool" where
  "is_sleep (Sleep n) = True"
| "is_sleep c = False"

definition posts :: "worker \<Rightarrow> nat" where
  "posts w = length (filter is_post (calls w))"

definition sleeps :: "worker \<Rightarrow> nat" where
  "sleeps w = length (filter is_sleep (calls w))"

definition called :: "worker_call \<Rightarrow> worker \<Rightarrow> worker" where
  "called c w = w\<lparr>calls := calls w @ [c]\<rparr>"

text \<open>\<^verbatim>\<open>signal.aborted\<close> of the controller \<open>sig\<close>.\<close>

definition aborted :: "nat \<Rightarrow> worker \<Rightarrow> bool" where
  "aborted sig w = (sig < length (signals w) \<and> signals w ! sig)"

text \<open>\<^verbatim>\<open>stop()\<close>: \<^verbatim>\<open>this.abortController?.abort(); this.isRunning = false\<close>.\<close>

definition stop :: "worker \<Rightarrow> worker" where
  "stop w =
     (case abortController w of
        None \<Rightarrow> w
      | Some i \<Rightarrow> w\<lparr>signals := (signals w)[i := True]\<rparr>)\<lparr>isRunning := False\<rparr>"

text \<open>An await during which \<^verbatim>\<open>stop()\<close> is called from outside, or is not.\<close>

definition stop_requested :: "bool \<Rightarrow> worker \<Rightarrow> worker" where
  "stop_requested b w = (if b then stop (called Stop w) else w)"

definition sleep :: "schedule \<Rightarrow> nat \<Rightarrow> worker \<Rightarrow> worker" where
  "sleep S ms w = stop_requested (stop_in_sleep S (sleeps w)) (called (Sleep ms) w)"

definition await_postWebhook ::
  "QueueWorkerDeps \<Rightarrow> schedule \<Rightarrow> post_input \<Rightarrow> worker \<Rightarrow>
     (js_error + DiscordWebhookMessageResponse option) \<times> worker" where
  "await_postWebhook D S input w =
     (postWebhook D (posts w) input,
      stop_requested (stop_in_flight S (posts w)) (called (PostWebhook input) w))"

text \<open>The two alerts of the catch block.\<close>

definition retry_alert :: "int \<Rightarrow> int \<Rightarrow> js_error \<Rightarrow> alert" where
  "retry_alert i currentRetry err =
     \<lparr>key = ''discord_queue_retry:'' @ show_int i,
      title = ''Discord notification retry'',
      message = ''Failed to send notification. Retry '' @ show_int (currentRetry + 1) @ ''/'' @
                show_int MAX_RETRIES @ ''. Error: '' @ message_of err,
      variant = ToastWarning\<rparr>"

definition discard_alert :: "int \<Rightarrow> alert" where
  "discard_alert i =
     \<lparr>key = ''discord_queue_error:'' @ show_int i,
      title = ''Discord notification failed'',
      message = ''Failed to send notification after '' @ show_int MAX_RETRIES @
                '' retries. Message discarded.'',
      variant = ToastError\<rparr>"

text \<open>
  The catch block of \<^verbatim>\<open>processMessage\<close> (lines 110 to 141): below \<^verbatim>\<open>MAX_RETRIES\<close> the count
  and the error are written to the row and a warning is raised; from \<^verbatim>\<open>MAX_RETRIES\<close> on an
  error is raised and the row deleted.
\<close>

definition on_error :: "QueueMessage \<Rightarrow> js_error \<Rightarrow> worker \<Rightarrow> worker" where
  "on_error m err w =
     (let currentRetry = (case retryCount m of None \<Rightarrow> 0 | Some r \<Rightarrow> r) in
      if currentRetry < MAX_RETRIES then
        (let lastErr = (if message_of err = [] then ''Unknown error'' else message_of err);
             w1 = called (UpdateRetryCount (id' m) (currentRetry + 1) lastErr)
                    (w\<lparr>queue := updateRetryCount (id' m) (currentRetry + 1) lastErr (queue w)\<rparr>)
         in called (MaybeAlertError (retry_alert (id' m) currentRetry err)) w1)
      else
        (let w1 = called (MaybeAlertError (discard_alert (id' m))) w
         in called (Delete (id' m)) (w1\<lparr>queue := delete (id' m) (queue w1)\<rparr>)))"

text \<open>Lines 83 to 86: the thread id is written to the queue and the callback called.\<close>

definition thread_created :: "QueueWorkerDeps \<Rightarrow> string \<Rightarrow> string \<Rightarrow> worker \<Rightarrow> worker" where
  "thread_created D sid cid w =
     (let w1 = called (UpdateThreadId sid cid) (w\<lparr>queue := updateThreadId sid cid (queue w)\<rparr>)
      in if onThreadCreated D then called (OnThreadCreated sid cid) w1 else w1)"

text \<open>The inputs of the two calls of \<^verbatim>\<open>postWebhook\<close> (lines 69 to 78 and 96 to 104).\<close>

definition creation_input :: "QueueWorkerDeps \<Rightarrow> QueueMessage \<Rightarrow> post_input" where
  "creation_input D m =
     \<lparr>webhookUrl_in = webhookUrl D, threadId_in = None, wait_in = Some True,
      body_in = (webhookBody m)\<lparr>thread_name := Some (buildThreadName D (sessionId m)),
                  username := deps_username D, avatar_url := avatarUrl D\<rparr>\<rparr>"

definition thread_input :: "QueueWorkerDeps \<Rightarrow> QueueMessage \<Rightarrow> post_input" where
  "thread_input D m =
     \<lparr>webhookUrl_in = webhookUrl D, threadId_in = threadId m, wait_in = None,
      body_in = (webhookBody m)\<lparr>username := deps_username D, avatar_url := avatarUrl D\<rparr>\<rparr>"

text \<open>
  \<^verbatim>\<open>processMessage\<close>: a message without thread id (\<^verbatim>\<open>!message.threadId\<close>: null or empty)
  creates the thread; \<^verbatim>\<open>res?.channel_id\<close> is truthy for a result with a non-empty
  \<^verbatim>\<open>channel_id\<close>.
\<close>

definition processMessage :: "QueueWorkerDeps \<Rightarrow> schedule \<Rightarrow> QueueMessage \<Rightarrow> worker \<Rightarrow> worker" where
  "processMessage D S m w =
     (if threadId m = None \<or> threadId m = Some [] then
        (case await_postWebhook D S (creation_input D m) w of
           (Inl err, w1) \<Rightarrow> on_error m err w1
         | (Inr res, w1) \<Rightarrow>
             (let w2 = (case res of
                          None \<Rightarrow> w1
                        | Some r \<Rightarrow>
                            if channel_id r \<noteq> []
                            then thread_created D (sessionId m) (channel_id r) w1
                            else w1)
              in called (Delete (id' m)) (w2\<lparr>queue := delete (id' m) (queue w2)\<rparr>)))
      else
        (case await_postWebhook D S (thread_input D m) w of
           (Inl err, w1) \<Rightarrow> on_error m err w1
         | (Inr res, w1) \<Rightarrow> called (Delete (id' m)) (w1\<lparr>queue := delete (id' m) (queue w1)\<rparr>)))"

text \<open>The \<^verbatim>\<open>for\<close> loop of \<^verbatim>\<open>poll\<close>, with its \<^verbatim>\<open>break\<close> on an aborted signal.\<close>

fun process_batch ::
  "QueueWorkerDeps \<Rightarrow> schedule \<Rightarrow> nat \<Rightarrow> QueueMessage list \<Rightarrow> worker \<Rightarrow> worker" where
  "process_batch D S sig [] w = w"
| "process_batch D S sig (m # ms) w =
     (if aborted sig w then w else process_batch D S sig ms (processMessage D S m w))"

text \<open>
  One turn of the \<^verbatim>\<open>while\<close> loop of \<^verbatim>\<open>poll\<close> after its test: the loop returns on an empty
  batch, having stopped the worker; an exception of \<^verbatim>\<open>dequeue\<close> leaves it; otherwise the batch
  is processed, the loop sleeps and goes on.
\<close>

datatype outcome = Returned | Threw js_error | Continue

definition poll_body ::
  "builtins \<Rightarrow> QueueWorkerDeps \<Rightarrow> schedule \<Rightarrow> nat \<Rightarrow> worker \<Rightarrow> outcome \<times> worker" where
  "poll_body B D S sig w =
     (case dequeue B BATCH_SIZE (queue w) of
        (Inl e, db) \<Rightarrow> (Threw e, called (Dequeue BATCH_SIZE) (w\<lparr>queue := db\<rparr>))
      | (Inr messages, db) \<Rightarrow>
          (let w0 = called (Dequeue BATCH_SIZE) (w\<lparr>queue := db\<rparr>) in
           if messages = [] then (Returned, stop w0)
           else (Continue, sleep S POLL_INTERVAL_MS (process_batch D S sig messages w0))))"

text \<open>
  \<^verbatim>\<open>poll(signal)\<close> and \<^verbatim>\<open>start()\<close> return the exception they reject with, if any, and the
  state they leave.
\<close>

function poll ::
  "builtins \<Rightarrow> QueueWorkerDeps \<Rightarrow> schedule \<Rightarrow> nat \<Rightarrow> worker \<Rightarrow> js_error option \<times> worker" where
  "poll B D S sig w =
     (if aborted sig w then (None, w)
      else case poll_body B D S sig w of
             (Continue, w') \<Rightarrow> poll B D S sig w'
           | (Returned, w') \<Rightarrow> (None, w')
           | (Threw e, w') \<Rightarrow> (Some e, w'))"
  by pat_completeness auto

definition start ::
  "builtins \<Rightarrow> QueueWorkerDeps \<Rightarrow> schedule \<Rightarrow> worker \<Rightarrow> js_error option \<times> worker" where
  "start B D S w =
     (if isRunning w then (None, w)
      else poll B D S (length (signals w))
             (w\<lparr>isRunning := True,
                signals := signals w @ [False],
                abortController := Some (length (signals w))\<rparr>))"

text \<open>The worker as its constructor leaves it.\<close>

definition new_worker :: "queue_db \<Rightarrow> worker" where
  "new_worker db =
     \<lparr>queue = db, isRunning = False, abortController = None, signals = [], calls = []\<rparr>"

section \<open>Auxiliary notions of the properties\<close>

text \<open>
  The rows are in clock order when, in the order of insertion, the timestamps never
  decrease and the ids increase.
\<close>

definition in_clock_order :: "queue_db \<Rightarrow> bool" where
  "in_clock_order db = (sorted (map created_at (rows db)) \<and> sorted (map row_id (rows db)))"

text \<open>The retry count the worker reads: \<^verbatim>\<open>retryCount || 0\<close>.\<close>

definition effective_retry :: "int option \<Rightarrow> int" where
  "effective_retry c = (case c of None \<Rightarrow> 0 | Some r \<Rightarrow> r)"

text \<open>The retries left to the oldest row; with the number of rows, what a poll decreases.\<close>

definition head_weight :: "queue_db \<Rightarrow> nat" where
  "head_weight db =
     (case sort_key fifo_key (rows db) of
        [] \<Rightarrow> 0
      | h # hs \<Rightarrow> nat (MAX_RETRIES - effective_retry (retry_count h)))"

text \<open>The input of the one call of \<^verbatim>\<open>postWebhook\<close> that \<^verbatim>\<open>processMessage\<close> makes for a message.\<close>

definition delivery_input :: "QueueWorkerDeps \<Rightarrow> QueueMessage \<Rightarrow> post_input" where
  "delivery_input D m =
     (if threadId m = None \<or> threadId m = Some [] then creation_input D m else thread_input D m)"

text \<open>The state after \<open>n\<close> rounds of the poll loop's body.\<close>

definition rounds ::
  "builtins \<Rightarrow> QueueWorkerDeps \<Rightarrow> schedule \<Rightarrow> nat \<Rightarrow> nat \<Rightarrow> worker \<Rightarrow> worker" where
  "rounds B D S sig n w = ((\<lambda>v. snd (poll_body B D S sig v)) ^^ n) w"

text \<open>
  The calls of a run that follow the first \<^verbatim>\<open>stop()\<close> from outside. The loop winds down
  when they hold no dequeue and no post, and at most one sleep.
\<close>

fun is_dequeue :: "worker_call \<Rightarrow> bool" where
  "is_dequeue (Dequeue n) = True"
| "is_dequeue c = False"

fun after_stop :: "worker_call list \<Rightarrow> worker_call list" where
  "after_stop [] = []"
| "after_stop (c # cs) = (if c = Stop then cs else after_stop cs)"

definition winds_down :: "worker_call list \<Rightarrow> bool" where
  "winds_down t =
     ((\<forall>c\<in>set (after_stop t). \<not> is_post c \<and> \<not> is_dequeue c) \<and>
      length (filter is_sleep (after_stop t)) \<le> 1)"

text \<open>The same schedule with no \<^verbatim>\<open>stop()\<close> during a delivery.\<close>

definition never_in_flight :: "schedule \<Rightarrow> schedule" where
  "never_in_flight S = S\<lparr>stop_in_flight := (\<lambda>k. False)\<rparr>"

text \<open>The calls a delivery makes once \<^verbatim>\<open>postWebhook\<close> has settled.\<close>

fun is_effect :: "worker_call \<Rightarrow> bool" where
  "is_effect (UpdateThreadId s t) = True"
| "is_effect (OnThreadCreated s t) = True"
| "is_effect (Delete i) = True"
| "is_effect (UpdateRetryCount i n e) = True"
| "is_effect (MaybeAlertError a) = True"
| "is_effect c = False"

text \<open>
  What holds of the worker at every turn of a loop started by \<^verbatim>\<open>start\<close>: the loop's signal
  is the one of the worker's current controller, and once it is aborted the worker is not
  running.
\<close>

definition loop_inv :: "nat \<Rightarrow> worker \<Rightarrow> bool" where
  "loop_inv sig w =
     (abortController w = Some sig \<and> sig < length (signals w) \<and> (aborted sig w \<longrightarrow> \<not> isRunning w))"



text \<open>
  Closed examples need concrete built-ins. \<open>content_codec\<close> stands for the JSON codec on
  payloads that carry a content only: the stored text is the content itself.
\<close>

definition content_codec :: builtins where
  "content_codec =
     \<lparr>JSON_parse = (\<lambda>s. Inl (Error ''SyntaxError'')),
      JSON_parse_body = (\<lambda>s. Inr \<lparr>content = Some s, username = None, avatar_url = None,
                                   thread_name = None, embeds = None, allowed_mentions = None\<rparr>),
      JSON_stringify = (\<lambda>b. case content b of None \<Rightarrow> [] | Some c \<Rightarrow> c),
      Number_of = (\<lambda>s. NaN),
      Number_toString = (\<lambda>x. ''NaN'')\<rparr>"

definition text_message :: "string \<Rightarrow> string option \<Rightarrow> string \<Rightarrow> new_message" where
  "text_message sid tid c =
     \<lparr>sessionId = sid, threadId = tid,
      webhookBody = \<lparr>content = Some c, username = None, avatar_url = None,
                     thread_name = None, embeds = None, allowed_mentions = None\<rparr>\<rparr>"

text \<open>
  A schedule without any \<^verbatim>\<open>stop()\<close> from outside, and worker dependencies whose transport
  settles every call with the same outcome (thread names as the tests build them).
\<close>

definition quiet :: schedule where
  "quiet = \<lparr>stop_in_flight = (\<lambda>k. False), stop_in_sleep = (\<lambda>k. False)\<rparr>"

definition test_deps :: "(js_error + DiscordWebhookMessageResponse option) \<Rightarrow> QueueWorkerDeps" where
  "test_deps outcome =
     \<lparr>postWebhook = (\<lambda>k input. outcome),
      webhookUrl = ''https://example.com/webhook'',
      deps_username = None,
      avatarUrl = None,
      buildThreadName = (\<lambda>sid. ''thread-'' @ sid),
      onThreadCreated = True\<rparr>"

text \<open>The message read from the first row of a one-row table, and that table.\<close>

definition first_message :: QueueMessage where
  "first_message =
     \<lparr>sessionId = ''s1'', threadId = None,
      webhookBody = \<lparr>content = Some ''first'', username = None, avatar_url = None,
                     thread_name = None, embeds = None, allowed_mentions = None\<rparr>,
      id' = 1, createdAt = 100, retryCount = Some 0, lastError = None\<rparr>"

definition first_db :: queue_db where
  "first_db = enqueue content_codec 100 (text_message ''s1'' None ''first'') empty_db"

text \<open>
  A transport answered by the given responses in turn (and failing once they are used up),
  a response with only a status and a body, one input, and built-ins whose \<^verbatim>\<open>JSON.parse\<close>
  reads one given text as one given value and rejects every other text.
\<close>

definition replies :: "response list \<Rightarrow> PostDiscordWebhookDeps" where
  "replies rs =
     \<lparr>showErrorAlert = True,
      waitOnRateLimitMs = DEFAULT_RATE_LIMIT_WAIT_MS,
      fetchImpl = (\<lambda>k q. if k < length rs then Inr (rs ! k) else Inl (Error ''fetch failed''))\<rparr>"

definition reply :: "nat \<Rightarrow> string \<Rightarrow> response" where
  "reply code txt =
     \<lparr>status = code, statusText = [], header_Retry_After = None, body_text = Some txt\<rparr>"

definition plain_post :: post_input where
  "plain_post =
     \<lparr>webhookUrl_in = ''https://example.com/webhook'', threadId_in = None, wait_in = Some True,
      body_in = \<lparr>content = Some ''hello'', username = None, avatar_url = None,
                 thread_name = None, embeds = None, allowed_mentions = None\<rparr>\<rparr>"

definition reads :: "string \<Rightarrow> json \<Rightarrow> builtins" where
  "reads txt j =
     content_codec\<lparr>JSON_parse := (\<lambda>s. if s = txt then Inr j else Inl (Error ''SyntaxError''))\<rparr>"

section \<open>Properties of the persistent queue\<close>

text \<open>
  Claim C3. \<^verbatim>\<open>updateThreadId(sessionId, T)\<close> on any table keeps the number and the order
  of the rows; the row at each position whose session matches and whose thread id is
  NULL has its thread id set to \<open>T\<close> and every other field as before; every other row
  (of the session with a thread id already, or of another session) is the row it was.
\<close>

theorem updateThreadId_frame:
  "length (rows (updateThreadId sid T db)) = length (rows db) \<and>
   seq (updateThreadId sid T db) = seq db \<and>
   (\<forall>i < length (rows db).
      (session_id (rows db ! i) = sid \<and> thread_id (rows db ! i) = None \<longrightarrow>
         rows (updateThreadId sid T db) ! i = (rows db ! i)\<lparr>thread_id := Some T\<rparr>) \<and>
      (\<not> (session_id (rows db ! i) = sid \<and> thread_id (rows db ! i) = None) \<longrightarrow>
         rows (updateThreadId sid T db) ! i = rows db ! i))"
  by (simp add: updateThreadId_def)

theorem updateThreadId_frame_witness:
  "rows (updateThreadId ''s'' ''T''
     \<lparr>rows = [\<lparr>row_id = 1, session_id = ''s'', thread_id = None, webhook_body = ''b1'',
               created_at = 10, retry_count = Some 0, last_error = None\<rparr>,
              \<lparr>row_id = 2, session_id = ''s'', thread_id = Some ''T2'', webhook_body = ''b2'',
               created_at = 11, retry_count = Some 0, last_error = None\<rparr>],
      seq = 2\<rparr>) ! 0
   = \<lparr>row_id = 1, session_id = ''s'', thread_id = Some ''T'', webhook_body = ''b1'',
      created_at = 10, retry_count = Some 0, last_error = None\<rparr> \<and>
   rows (updateThreadId ''s'' ''T''
     \<lparr>rows = [\<lparr>row_id = 1, session_id = ''s'', thread_id = None, webhook_body = ''b1'',
               created_at = 10, retry_count = Some 0, last_error = None\<rparr>,
              \<lparr>row_id = 2, session_id = ''s'', thread_id = Some ''T2'', webhook_body = ''b2'',
               created_at = 11, retry_count = Some 0, last_error = None\<rparr>],
      seq = 2\<rparr>) ! Suc 0
   = \<lparr>row_id = 2, session_id = ''s'', thread_id = Some ''T2'', webhook_body = ''b2'',
      created_at = 11, retry_count = Some 0, last_error = None\<rparr>"
  using updateThreadId_frame [of "''s''" "''T''"
     "\<lparr>rows = [\<lparr>row_id = 1, session_id = ''s'', thread_id = None, webhook_body = ''b1'',
               created_at = 10, retry_count = Some 0, last_error = None\<rparr>,
              \<lparr>row_id = 2, session_id = ''s'', thread_id = Some ''T2'', webhook_body = ''b2'',
               created_at = 11, retry_count = Some 0, last_error = None\<rparr>],
      seq = 2\<rparr>"]
  by (simp add: All_less_Suc)

lemma map_rows_Inr:
  "map_rows f xs = Inr ys \<longleftrightarrow> list_all2 (\<lambda>y x. f x = Inr y) ys xs"
proof (induction xs arbitrary: ys)
  case Nil
  show ?case by auto
next
  case (Cons x xs)
  show ?case
    by (cases ys; cases "f x"; cases "map_rows f xs") (auto simp: Cons.IH [symmetric])
qed

lemma map_rows_total:
  "(\<forall>x\<in>set xs. \<exists>y. f x = Inr y) \<Longrightarrow> \<exists>ys. map_rows f xs = Inr ys"
  by (induction xs) (auto split: sum.splits)

lemma row_to_message_fields:
  "row_to_message B r = Inr m \<Longrightarrow>
     id' m = row_id r \<and> sessionId m = session_id r \<and> threadId m = thread_id r \<and>
     createdAt m = created_at r \<and> retryCount m = retry_count r \<and> lastError m = last_error r \<and>
     JSON_parse_body B (webhook_body r) = Inr (webhookBody m)"
  by (auto simp: row_to_message_def split: sum.splits)

lemma row_to_message_total:
  "(\<exists>b. JSON_parse_body B (webhook_body r) = Inr b) \<Longrightarrow> \<exists>m. row_to_message B r = Inr m"
  by (auto simp: row_to_message_def)

lemma sorted_pair_keys:
  "sorted (map f xs) \<Longrightarrow> sorted (map g xs) \<Longrightarrow> sorted (map (\<lambda>x. (f x, g x)) xs)"
  by (induction xs) (auto simp: less_eq_prod_def)

lemma in_clock_order_sort: "in_clock_order db \<Longrightarrow> sort_key fifo_key (rows db) = rows db"
  unfolding in_clock_order_def
  by (rule sort_key_id_if_sorted)
    (use sorted_pair_keys [of created_at "rows db" row_id] in \<open>simp add: fifo_key_def [abs_def]\<close>)

lemma fold_max_ge: "(a::int) \<le> fold max xs a"
  by (induction xs arbitrary: a) (auto intro: order_trans [OF max.cobounded2])

lemma fold_max_mem: "x \<in> set xs \<Longrightarrow> (x::int) \<le> fold max xs a"
  by (induction xs arbitrary: a) (auto intro: order_trans [OF max.cobounded1 fold_max_ge])

lemma fresh_id_greater: "r \<in> set (rows db) \<Longrightarrow> row_id r < fresh_id db"
  using fold_max_mem [of "row_id r" "map row_id (rows db)" "seq db"] by (simp add: fresh_id_def)

text \<open>
  Clock order holds of the empty table; an insertion keeps it when its clock reading is not
  below the timestamps stored, and so do deletions and updates.
\<close>

lemma in_clock_order_empty: "in_clock_order empty_db"
  by (simp add: in_clock_order_def empty_db_def)

lemma in_clock_order_enqueue:
  assumes "in_clock_order db" "\<forall>r\<in>set (rows db). created_at r \<le> now"
  shows "in_clock_order (enqueue B now m db)"
  using assms fresh_id_greater [of _ db]
  by (auto simp: in_clock_order_def enqueue_def sorted_append less_imp_le)

lemma in_clock_order_delete: "in_clock_order db \<Longrightarrow> in_clock_order (delete i db)"
  by (simp add: in_clock_order_def delete_def sorted_map sorted_wrt_filter)

lemma in_clock_order_updateThreadId:
  "in_clock_order db \<Longrightarrow> in_clock_order (updateThreadId sid tid db)"
  by (simp add: in_clock_order_def updateThreadId_def comp_def if_distrib cong: if_cong)

lemma in_clock_order_updateRetryCount:
  "in_clock_order db \<Longrightarrow> in_clock_order (updateRetryCount i n e db)"
  by (simp add: in_clock_order_def updateRetryCount_def comp_def if_distrib cong: if_cong)

lemma sorted_take_map: "sorted (map f xs) \<Longrightarrow> sorted (map f (take n xs))"
  by (metis sorted_wrt_take take_map)

lemma dequeue_parses:
  assumes parses: "\<forall>r\<in>set (rows db). \<exists>b. JSON_parse_body B (webhook_body r) = Inr b"
  shows "\<exists>ms. dequeue B n db = (Inr ms, db) \<and>
           list_all2 (\<lambda>m r. row_to_message B r = Inr m) ms (take n (sort_key fifo_key (rows db)))"
proof -
  let ?sel = "take n (sort_key fifo_key (rows db))"
  have "\<forall>r\<in>set ?sel. \<exists>m. row_to_message B r = Inr m"
    using parses by (auto dest!: in_set_takeD intro: row_to_message_total)
  then obtain ms where ms: "map_rows (row_to_message B) ?sel = Inr ms"
    using map_rows_total by blast
  then have "list_all2 (\<lambda>m r. row_to_message B r = Inr m) ms ?sel"
    by (simp add: map_rows_Inr)
  with ms show ?thesis
    by (auto simp: dequeue_def select_oldest_def)
qed

text \<open>
  Claim C4, as amended. On every table whose stored payloads parse and for every limit
  \<open>n\<close>, \<^verbatim>\<open>dequeue(n)\<close> returns the messages of the first \<open>n\<close> rows in the order of
  \<open>(createdAt, id)\<close> ascending (all the rows when there are fewer), whatever their sessions,
  and leaves the table as it is; on the empty table it returns the empty sequence, not an
  error. These are the first \<open>n\<close> rows in the order of insertion whenever the rows are in
  clock order, that is, whenever the clock did not step back between two insertions.
\<close>

theorem dequeue_fifo:
  assumes parses: "\<forall>r\<in>set (rows db). \<exists>b. JSON_parse_body B (webhook_body r) = Inr b"
  shows "\<exists>ms. dequeue B n db = (Inr ms, db) \<and>
           length ms = min n (count db) \<and>
           list_all2 (\<lambda>m r. row_to_message B r = Inr m) ms (take n (sort_key fifo_key (rows db))) \<and>
           sorted (map (\<lambda>m. (createdAt m, id' m)) ms) \<and>
           (in_clock_order db \<longrightarrow>
              list_all2 (\<lambda>m r. row_to_message B r = Inr m) ms (take n (rows db))) \<and>
           (rows db = [] \<longrightarrow> ms = [])"
proof -
  let ?sel = "take n (sort_key fifo_key (rows db))"
  from dequeue_parses [OF parses] obtain ms where
    ms: "dequeue B n db = (Inr ms, db)" and
    rel: "list_all2 (\<lambda>m r. row_to_message B r = Inr m) ms ?sel"
    by blast
  have len: "length ms = min n (count db)"
    using list_all2_lengthD [OF rel] by (simp add: count_def min.commute)
  have keys: "map (\<lambda>m. (createdAt m, id' m)) ms = map fifo_key ?sel"
    using rel by (induction rule: list_all2_induct) (auto simp: fifo_key_def dest: row_to_message_fields)
  have srt: "sorted (map (\<lambda>m. (createdAt m, id' m)) ms)"
    unfolding keys by (rule sorted_take_map) simp
  have ord: "in_clock_order db \<longrightarrow> list_all2 (\<lambda>m r. row_to_message B r = Inr m) ms (take n (rows db))"
    using rel by (auto simp: in_clock_order_sort)
  have emp: "rows db = [] \<longrightarrow> ms = []"
    using len by (auto simp: count_def)
  show ?thesis
    using ms rel len srt ord emp by blast
qed

lemma content_codec_simps [simp]:
  "JSON_parse_body content_codec s = Inr \<lparr>content = Some s, username = None, avatar_url = None,
                                   thread_name = None, embeds = None, allowed_mentions = None\<rparr>"
  "JSON_stringify content_codec b = (case content b of None \<Rightarrow> [] | Some c \<Rightarrow> c)"
  by (simp_all add: content_codec_def)

theorem dequeue_fifo_witness:
  "\<exists>ms. dequeue content_codec 1
          (enqueue content_codec 200 (text_message ''s2'' None ''second'')
            (enqueue content_codec 100 (text_message ''s1'' None ''first'') empty_db))
        = (Inr ms,
           enqueue content_codec 200 (text_message ''s2'' None ''second'')
            (enqueue content_codec 100 (text_message ''s1'' None ''first'') empty_db)) \<and>
      map id' ms = [1] \<and> map sessionId ms = [''s1'']"
proof -
  let ?db = "enqueue content_codec 200 (text_message ''s2'' None ''second'')
            (enqueue content_codec 100 (text_message ''s1'' None ''first'') empty_db)"
  have rows: "rows ?db =
     [\<lparr>row_id = 1, session_id = ''s1'', thread_id = None, webhook_body = ''first'',
       created_at = 100, retry_count = Some 0, last_error = None\<rparr>,
      \<lparr>row_id = 2, session_id = ''s2'', thread_id = None, webhook_body = ''second'',
       created_at = 200, retry_count = Some 0, last_error = None\<rparr>]"
    by (simp add: enqueue_def fresh_id_def empty_db_def text_message_def)
  have parses: "\<forall>r\<in>set (rows ?db). \<exists>b. JSON_parse_body content_codec (webhook_body r) = Inr b"
    by simp
  have ordered: "in_clock_order ?db"
    by (simp add: in_clock_order_def rows)
  from dequeue_fifo [OF parses, of 1] ordered obtain ms where
    deq: "dequeue content_codec 1 ?db = (Inr ms, ?db)" and
    rel: "list_all2 (\<lambda>m r. row_to_message content_codec r = Inr m) ms (take 1 (rows ?db))"
    by blast
  from rel have "map id' ms = [1] \<and> map sessionId ms = [''s1'']"
    by (auto simp: rows list_all2_Cons2 row_to_message_def)
  with deq show ?thesis by (intro exI [of _ ms]) simp
qed

theorem dequeue_insertion_order_counterexample:
  "fst (dequeue content_codec 1
          (enqueue content_codec 100 (text_message ''s1'' None ''second'')
            (enqueue content_codec 200 (text_message ''s1'' None ''first'') empty_db)))
     = Inr [\<lparr>sessionId = ''s1'', threadId = None,
               webhookBody = \<lparr>content = Some ''second'', username = None, avatar_url = None,
                     thread_name = None, embeds = None, allowed_mentions = None\<rparr>,
               id' = 2, createdAt = 100, retryCount = Some 0, lastError = None\<rparr>] \<and>
   map row_id (take 1 (rows
          (enqueue content_codec 100 (text_message ''s1'' None ''second'')
            (enqueue content_codec 200 (text_message ''s1'' None ''first'') empty_db)))) = [1]"
  by (simp add: dequeue_def select_oldest_def enqueue_def fresh_id_def empty_db_def
      text_message_def fifo_key_def row_to_message_def)

lemma list_all2_left_mem: "list_all2 P ys xs \<Longrightarrow> y \<in> set ys \<Longrightarrow> \<exists>x\<in>set xs. P y x"
  by (induction rule: list_all2_induct) auto

lemma list_all2_right_mem: "list_all2 P ys xs \<Longrightarrow> x \<in> set xs \<Longrightarrow> \<exists>y\<in>set ys. P y x"
  by (induction rule: list_all2_induct) auto

text \<open>
  Claim C9. After \<^verbatim>\<open>enqueue({sessionId, threadId, webhookBody})\<close> of a payload that
  \<^verbatim>\<open>JSON.parse\<close> reads back from its \<^verbatim>\<open>JSON.stringify\<close> text, the message that \<^verbatim>\<open>dequeue\<close>
  returns for the new row carries that payload, the same session and thread id, retry count
  0, no last error, and the time of the insertion as \<^verbatim>\<open>createdAt\<close>; and \<^verbatim>\<open>dequeue\<close> does return
  it when the other payloads parse and the limit exceeds the number of older rows.
\<close>

theorem enqueue_dequeue_roundtrip:
  assumes codec: "JSON_parse_body B (JSON_stringify B (webhookBody m)) = Inr (webhookBody m)"
  shows "(\<forall>ms x. fst (dequeue B n (enqueue B now m db)) = Inr ms \<longrightarrow> x \<in> set ms \<longrightarrow>
            id' x = fresh_id db \<longrightarrow>
            x = \<lparr>sessionId = sessionId m, threadId = threadId m, webhookBody = webhookBody m,
                 id' = fresh_id db, createdAt = now, retryCount = Some 0, lastError = None\<rparr>) \<and>
         ((\<forall>r\<in>set (rows db). \<exists>b. JSON_parse_body B (webhook_body r) = Inr b) \<longrightarrow>
          count db < n \<longrightarrow>
            (\<exists>ms. fst (dequeue B n (enqueue B now m db)) = Inr ms \<and>
               \<lparr>sessionId = sessionId m, threadId = threadId m, webhookBody = webhookBody m,
                 id' = fresh_id db, createdAt = now, retryCount = Some 0, lastError = None\<rparr>
               \<in> set ms))"
proof (intro conjI allI impI)
  let ?row = "\<lparr>row_id = fresh_id db, session_id = sessionId m, thread_id = threadId m,
          webhook_body = JSON_stringify B (webhookBody m), created_at = now,
          retry_count = Some 0, last_error = None\<rparr>"
  let ?msg = "\<lparr>sessionId = sessionId m, threadId = threadId m, webhookBody = webhookBody m,
                 id' = fresh_id db, createdAt = now, retryCount = Some 0, lastError = None\<rparr>"
  have rows: "rows (enqueue B now m db) = rows db @ [?row]"
    by (simp add: enqueue_def)
  have new: "row_to_message B ?row = Inr ?msg"
    by (simp add: row_to_message_def codec)
  {
    fix ms x
    assume res: "fst (dequeue B n (enqueue B now m db)) = Inr ms" and x: "x \<in> set ms"
      and fresh: "id' x = fresh_id db"
    from res have "list_all2 (\<lambda>y r. row_to_message B r = Inr y) ms
        (take n (sort_key fifo_key (rows (enqueue B now m db))))"
      by (simp add: dequeue_def select_oldest_def map_rows_Inr)
    with x obtain r where r: "r \<in> set (take n (sort_key fifo_key (rows (enqueue B now m db))))"
      and rx: "row_to_message B r = Inr x"
      by (blast dest: list_all2_left_mem)
    from r have "r \<in> set (rows db) \<or> r = ?row"
      by (auto dest!: in_set_takeD simp: rows)
    moreover from rx fresh have "row_id r = fresh_id db"
      by (auto dest: row_to_message_fields)
    ultimately have "r = ?row"
      using fresh_id_greater [of r db] by auto
    with rx new show "x = ?msg" by simp
  }
  {
    assume parses: "\<forall>r\<in>set (rows db). \<exists>b. JSON_parse_body B (webhook_body r) = Inr b"
      and n: "count db < n"
    have "\<forall>r\<in>set (rows (enqueue B now m db)). \<exists>b. JSON_parse_body B (webhook_body r) = Inr b"
      using parses codec by (auto simp: rows)
    from dequeue_parses [OF this, of n] obtain ms where
      deq: "dequeue B n (enqueue B now m db) = (Inr ms, enqueue B now m db)" and
      rel: "list_all2 (\<lambda>y r. row_to_message B r = Inr y) ms
              (take n (sort_key fifo_key (rows (enqueue B now m db))))"
      by blast
    have "take n (sort_key fifo_key (rows (enqueue B now m db)))
            = sort_key fifo_key (rows (enqueue B now m db))"
      using n by (simp add: rows count_def)
    then have "?row \<in> set (take n (sort_key fifo_key (rows (enqueue B now m db))))"
      by (simp add: rows)
    with rel obtain y where "y \<in> set ms" "row_to_message B ?row = Inr y"
      by (blast dest: list_all2_right_mem)
    with new deq show "\<exists>ms. fst (dequeue B n (enqueue B now m db)) = Inr ms \<and> ?msg \<in> set ms"
      by auto
  }
qed

theorem enqueue_dequeue_roundtrip_witness:
  "\<exists>ms. fst (dequeue content_codec 1
                (enqueue content_codec 42 (text_message ''s1'' (Some ''T'') ''hello'') empty_db))
          = Inr ms \<and>
        \<lparr>sessionId = ''s1'', threadId = Some ''T'',
         webhookBody = \<lparr>content = Some ''hello'', username = None, avatar_url = None,
                     thread_name = None, embeds = None, allowed_mentions = None\<rparr>,
         id' = 1, createdAt = 42, retryCount = Some 0, lastError = None\<rparr> \<in> set ms"
  using enqueue_dequeue_roundtrip [of content_codec "text_message ''s1'' (Some ''T'') ''hello''"
      1 42 empty_db]
  by (simp add: text_message_def empty_db_def count_def fresh_id_def)

section \<open>Termination of the poll loop\<close>

lemma called_simps [simp]:
  "queue (called c w) = queue w"
  "isRunning (called c w) = isRunning w"
  "abortController (called c w) = abortController w"
  "signals (called c w) = signals w"
  "calls (called c w) = calls w @ [c]"
  by (simp_all add: called_def)

lemma stop_simps [simp]:
  "queue (stop w) = queue w"
  "isRunning (stop w) = False"
  "abortController (stop w) = abortController w"
  "calls (stop w) = calls w"
  "length (signals (stop w)) = length (signals w)"
  by (simp_all add: stop_def split: option.splits)

lemma stop_requested_simps [simp]:
  "queue (stop_requested b w) = queue w"
  "abortController (stop_requested b w) = abortController w"
  "calls (stop_requested b w) = calls w @ (if b then [Stop] else [])"
  "length (signals (stop_requested b w)) = length (signals w)"
  by (simp_all add: stop_requested_def)

lemma sleep_simps [simp]:
  "queue (sleep S ms w) = queue w"
  "abortController (sleep S ms w) = abortController w"
  "calls (sleep S ms w) = calls w @ Sleep ms # (if stop_in_sleep S (sleeps w) then [Stop] else [])"
  "length (signals (sleep S ms w)) = length (signals w)"
  by (simp_all add: sleep_def)

lemma aborted_called [simp]: "aborted sig (called c w) = aborted sig w"
  by (simp add: aborted_def)

lemma aborted_queue_update [simp]: "aborted sig (w\<lparr>queue := q\<rparr>) = aborted sig w"
  by (simp add: aborted_def)

lemma insort_key_map_keep:
  "(\<And>y. k (f y) = k y) \<Longrightarrow> insort_key k (f x) (map f xs) = map f (insort_key k x xs)"
  by (induction xs) auto

lemma sort_key_map_keep:
  "(\<And>y. k (f y) = k y) \<Longrightarrow> sort_key k (map f xs) = map f (sort_key k xs)"
  by (induction xs) (auto simp: insort_key_map_keep)

lemma sorted_rows_updateRetryCount:
  "sort_key fifo_key (rows (updateRetryCount i n e db)) =
     map (\<lambda>r. if row_id r = i then r\<lparr>retry_count := Some n, last_error := Some e\<rparr> else r)
       (sort_key fifo_key (rows db))"
  unfolding updateRetryCount_def by (simp add: sort_key_map_keep fifo_key_def)

lemma length_rows_simps [simp]:
  "length (rows (updateRetryCount i n e db)) = length (rows db)"
  "length (rows (updateThreadId sid tid db)) = length (rows db)"
  by (simp_all add: updateRetryCount_def updateThreadId_def)

lemma delete_shrinks:
  "i \<in> row_id ` set (rows db) \<Longrightarrow> length (rows (delete i db)) < length (rows db)"
  by (auto simp: delete_def intro!: length_filter_less)

lemma map_row_id_updateThreadId [simp]:
  "map row_id (rows (updateThreadId sid tid db)) = map row_id (rows db)"
  by (simp add: updateThreadId_def comp_def if_distrib cong: if_cong)

lemma row_ids_updateThreadId [simp]:
  "row_id ` set (rows (updateThreadId sid tid db)) = row_id ` set (rows db)"
  using arg_cong [OF map_row_id_updateThreadId, of set sid tid db] by (simp del: map_row_id_updateThreadId)

text \<open>The batch of one poll: at most one message, read from the oldest row.\<close>

lemma dequeue_batch:
  assumes "dequeue B BATCH_SIZE db = (Inr messages, db')" "messages \<noteq> []"
  shows "db' = db \<and> (\<exists>h hs m. sort_key fifo_key (rows db) = h # hs \<and> messages = [m] \<and>
            row_to_message B h = Inr m)"
proof -
  from assms have db: "db' = db"
    and mr: "map_rows (row_to_message B) (take 1 (sort_key fifo_key (rows db))) = Inr messages"
    by (auto simp: dequeue_def select_oldest_def BATCH_SIZE_def)
  show ?thesis
  proof (cases "sort_key fifo_key (rows db)")
    case Nil
    with mr assms(2) show ?thesis by simp
  next
    case (Cons h hs)
    with mr db show ?thesis by (auto split: sum.splits)
  qed
qed

lemma queue_on_error:
  "queue (on_error m err w) =
     (if effective_retry (retryCount m) < MAX_RETRIES
      then updateRetryCount (id' m) (effective_retry (retryCount m) + 1)
             (if message_of err = [] then ''Unknown error'' else message_of err) (queue w)
      else delete (id' m) (queue w))"
  by (simp add: on_error_def effective_retry_def Let_def)

lemma queue_thread_created [simp]:
  "queue (thread_created D sid cid w) = updateThreadId sid cid (queue w)"
  by (simp add: thread_created_def Let_def)

lemma queue_await_postWebhook [simp]:
  "queue (snd (await_postWebhook D S input w)) = queue w"
  by (simp add: await_postWebhook_def)

lemma queue_processMessage:
  "queue (processMessage D S m w) = delete (id' m) (queue w) \<or>
   (\<exists>sid cid. queue (processMessage D S m w) = delete (id' m) (updateThreadId sid cid (queue w))) \<or>
   (effective_retry (retryCount m) < MAX_RETRIES \<and>
      (\<exists>e. queue (processMessage D S m w) =
              updateRetryCount (id' m) (effective_retry (retryCount m) + 1) e (queue w)))"
  by (auto simp: processMessage_def Let_def queue_on_error await_postWebhook_def
      split: prod.splits sum.splits option.splits)

lemma measure_processMessage:
  assumes head: "sort_key fifo_key (rows (queue w)) = h # hs"
    and m: "row_to_message B h = Inr m"
  shows "length (rows (queue (processMessage D S m w))) < length (rows (queue w)) \<or>
         (length (rows (queue (processMessage D S m w))) = length (rows (queue w)) \<and>
          head_weight (queue (processMessage D S m w)) < head_weight (queue w))"
proof -
  from m have idm: "id' m = row_id h" and rc: "retryCount m = retry_count h"
    by (auto dest: row_to_message_fields)
  have "h \<in> set (sort_key fifo_key (rows (queue w)))"
    by (simp add: head)
  then have mem: "row_id h \<in> row_id ` set (rows (queue w))"
    by simp
  from queue_processMessage [of D S m w] show ?thesis
  proof (elim disjE exE conjE)
    assume "queue (processMessage D S m w) = delete (id' m) (queue w)"
    then show ?thesis using delete_shrinks [OF mem] by (simp add: idm)
  next
    fix sid cid
    assume "queue (processMessage D S m w) = delete (id' m) (updateThreadId sid cid (queue w))"
    then show ?thesis
      using delete_shrinks [of "row_id h" "updateThreadId sid cid (queue w)"] mem
      by (simp add: idm)
  next
    fix e
    assume lt: "effective_retry (retryCount m) < MAX_RETRIES"
      and q: "queue (processMessage D S m w) =
                updateRetryCount (id' m) (effective_retry (retryCount m) + 1) e (queue w)"
    have "head_weight (queue (processMessage D S m w)) < head_weight (queue w)"
      using lt by (simp add: q head_weight_def sorted_rows_updateRetryCount head idm rc
          effective_retry_def)
    then show ?thesis by (simp add: q)
  qed
qed

lemma poll_body_Continue:
  assumes "poll_body B D S sig w = (Continue, w')" "\<not> aborted sig w"
  shows "length (rows (queue w')) < length (rows (queue w)) \<or>
         (length (rows (queue w')) = length (rows (queue w)) \<and>
          head_weight (queue w') < head_weight (queue w))"
proof -
  from assms(1) obtain messages db where
    deq: "dequeue B BATCH_SIZE (queue w) = (Inr messages, db)" and ne: "messages \<noteq> []"
    and w': "w' = sleep S POLL_INTERVAL_MS
                    (process_batch D S sig messages (called (Dequeue BATCH_SIZE) (w\<lparr>queue := db\<rparr>)))"
    by (auto simp: poll_body_def Let_def split: prod.splits sum.splits if_splits)
  from dequeue_batch [OF deq ne] obtain h hs m where
    db: "db = queue w" and head: "sort_key fifo_key (rows (queue w)) = h # hs"
    and ms: "messages = [m]" and m: "row_to_message B h = Inr m"
    by blast
  let ?w0 = "called (Dequeue BATCH_SIZE) (w\<lparr>queue := db\<rparr>)"
  have "process_batch D S sig messages ?w0 = processMessage D S m ?w0"
    using assms(2) by (simp add: ms)
  moreover have "sort_key fifo_key (rows (queue ?w0)) = h # hs"
    by (simp add: db head)
  ultimately show ?thesis
    using measure_processMessage [of ?w0 h hs B m D S] m by (simp add: w' db)
qed

termination poll
proof (relation "measures [\<lambda>(B, D, S, sig, w). length (rows (queue w)),
                            \<lambda>(B, D, S, sig, w). head_weight (queue w)]")
  show "wf (measures [\<lambda>(B, D, S, sig, w). length (rows (queue w)),
                            \<lambda>(B, D, S, sig, w). head_weight (queue w)])"
    by simp
next
  fix B D S sig w x1 x2
  assume "\<not> aborted sig w" "(x1, x2) = poll_body B D S sig w" "x1 = Continue"
  then have "poll_body B D S sig w = (Continue, x2)" by simp
  from poll_body_Continue [OF this \<open>\<not> aborted sig w\<close>]
  show "((B, D, S, sig, x2), B, D, S, sig, w)
       \<in> measures [\<lambda>(B, D, S, sig, w). length (rows (queue w)),
                            \<lambda>(B, D, S, sig, w). head_weight (queue w)]"
    by auto
qed

section \<open>Properties of the delivery worker\<close>

lemma await_postWebhook_calls [simp]:
  "calls (snd (await_postWebhook D S input w)) =
     calls w @ PostWebhook input # (if stop_in_flight S (posts w) then [Stop] else [])"
  by (simp add: await_postWebhook_def)

lemma fst_await_postWebhook [simp]:
  "fst (await_postWebhook D S input w) = postWebhook D (posts w) input"
  by (simp add: await_postWebhook_def)

lemma thread_created_calls [simp]:
  "calls (thread_created D sid cid w) =
     calls w @ UpdateThreadId sid cid # (if onThreadCreated D then [OnThreadCreated sid cid] else [])"
  by (simp add: thread_created_def Let_def)

lemma on_error_calls:
  "calls (on_error m err w) =
     calls w @
     (if effective_retry (retryCount m) < MAX_RETRIES
      then [UpdateRetryCount (id' m) (effective_retry (retryCount m) + 1)
              (if message_of err = [] then ''Unknown error'' else message_of err),
            MaybeAlertError (retry_alert (id' m) (effective_retry (retryCount m)) err)]
      else [MaybeAlertError (discard_alert (id' m)), Delete (id' m)])"
  by (simp add: on_error_def effective_retry_def Let_def)

text \<open>
  Claim C1, as amended. For a dequeued message whose thread id is null, when the
  post-and-wait call succeeds: if the result carries a non-empty \<^verbatim>\<open>channel_id\<close>, the worker
  calls \<^verbatim>\<open>updateThreadId(sessionId, channel_id)\<close>, invokes the \<^verbatim>\<open>onThreadCreated\<close> callback (when
  one was supplied) with the same pair and then deletes the row; if the result is absent or
  its \<^verbatim>\<open>channel_id\<close> is empty, the worker deletes the row. In both cases the one call of
  \<^verbatim>\<open>postWebhook\<close> is the only post, nothing is retried, and no warning or alert is emitted:
  the calls listed are all the calls made (a \<open>Stop\<close> marks a \<^verbatim>\<open>stop()\<close> that arrived while the
  delivery was in flight).
\<close>

theorem processMessage_creates_thread:
  assumes null: "threadId m = None"
    and success: "postWebhook D (posts w) (creation_input D m) = Inr res"
  shows "(\<forall>r. res = Some r \<and> channel_id r \<noteq> [] \<longrightarrow>
            calls (processMessage D S m w) =
              calls w @ [PostWebhook (creation_input D m)] @
              (if stop_in_flight S (posts w) then [Stop] else []) @
              [UpdateThreadId (sessionId m) (channel_id r)] @
              (if onThreadCreated D then [OnThreadCreated (sessionId m) (channel_id r)] else []) @
              [Delete (id' m)] \<and>
            queue (processMessage D S m w) =
              delete (id' m) (updateThreadId (sessionId m) (channel_id r) (queue w))) \<and>
         (res = None \<or> (\<exists>r. res = Some r \<and> channel_id r = []) \<longrightarrow>
            calls (processMessage D S m w) =
              calls w @ [PostWebhook (creation_input D m)] @
              (if stop_in_flight S (posts w) then [Stop] else []) @ [Delete (id' m)] \<and>
            queue (processMessage D S m w) = delete (id' m) (queue w))"
  using null success
  by (auto simp: processMessage_def await_postWebhook_def Let_def)

theorem processMessage_creates_thread_witness:
  "calls (processMessage (test_deps (Inr (Some \<lparr>message_id = ''m0'', channel_id = ''thread123''\<rparr>)))
            quiet first_message (new_worker first_db)) =
     [PostWebhook \<lparr>webhookUrl_in = ''https://example.com/webhook'', threadId_in = None,
                   wait_in = Some True,
                   body_in = \<lparr>content = Some ''first'', username = None, avatar_url = None,
                     thread_name = Some ''thread-s1'', embeds = None, allowed_mentions = None\<rparr>\<rparr>,
      UpdateThreadId ''s1'' ''thread123'', OnThreadCreated ''s1'' ''thread123'', Delete 1] \<and>
   rows (queue (processMessage
            (test_deps (Inr (Some \<lparr>message_id = ''m0'', channel_id = ''thread123''\<rparr>)))
            quiet first_message (new_worker first_db))) = []"
proof -
  let ?D = "test_deps (Inr (Some \<lparr>message_id = ''m0'', channel_id = ''thread123''\<rparr>))"
  have n: "threadId first_message = None"
    by (simp add: first_message_def)
  have p: "postWebhook ?D (posts (new_worker first_db)) (creation_input ?D first_message) =
             Inr (Some \<lparr>message_id = ''m0'', channel_id = ''thread123''\<rparr>)"
    by (simp add: test_deps_def)
  from processMessage_creates_thread [OF n p, of quiet] show ?thesis
    by (simp add: quiet_def test_deps_def creation_input_def first_message_def new_worker_def
        first_db_def enqueue_def fresh_id_def empty_db_def text_message_def delete_def
        updateThreadId_def posts_def)
qed

theorem no_warning_counterexample:
  "calls (snd (start content_codec (test_deps (Inr None)) quiet (new_worker first_db)))
   = [Dequeue 1,
      PostWebhook \<lparr>webhookUrl_in = ''https://example.com/webhook'', threadId_in = None,
                   wait_in = Some True,
                   body_in = \<lparr>content = Some ''first'', username = None, avatar_url = None,
                     thread_name = Some ''thread-s1'', embeds = None, allowed_mentions = None\<rparr>\<rparr>,
      Delete 1, Sleep 1000, Dequeue 1]"
  by code_simp

lemma processMessage_input:
  "processMessage D S m w =
     (case await_postWebhook D S (delivery_input D m) w of
        (Inl err, w1) \<Rightarrow> on_error m err w1
      | (Inr res, w1) \<Rightarrow>
          (let w2 = (if threadId m = None \<or> threadId m = Some [] then
                       (case res of
                          None \<Rightarrow> w1
                        | Some r \<Rightarrow>
                            if channel_id r \<noteq> []
                            then thread_created D (sessionId m) (channel_id r) w1
                            else w1)
                     else w1)
           in called (Delete (id' m)) (w2\<lparr>queue := delete (id' m) (queue w2)\<rparr>)))"
  by (simp add: processMessage_def delivery_input_def await_postWebhook_def Let_def split: sum.splits)

lemma processMessage_failure:
  assumes "postWebhook D (posts w) (delivery_input D m) = Inl err"
  shows "processMessage D S m w = on_error m err (snd (await_postWebhook D S (delivery_input D m) w))"
  using assms by (simp add: processMessage_input await_postWebhook_def)

lemma signals_on_error [simp]: "signals (on_error m err w) = signals w"
  by (simp add: on_error_def Let_def)

lemma signals_thread_created [simp]: "signals (thread_created D sid cid w) = signals w"
  by (simp add: thread_created_def Let_def)

lemma stop_requested_False [simp]: "stop_requested False w = w"
  by (simp add: stop_requested_def)

lemma aborted_on_error [simp]: "aborted sig (on_error m err w) = aborted sig w"
  by (simp add: aborted_def)

lemma failed_round:
  assumes head: "sort_key fifo_key (rows (queue w)) = h # hs"
    and parses: "JSON_parse_body B (webhook_body h) = Inr b"
    and fail: "\<forall>k i. \<exists>e. postWebhook D k i = Inl e"
    and quiet: "\<forall>k. \<not> stop_in_flight S k \<and> \<not> stop_in_sleep S k"
    and live: "\<not> aborted sig w"
  shows "\<not> aborted sig (snd (poll_body B D S sig w)) \<and>
         (\<exists>e. queue (snd (poll_body B D S sig w)) =
            (if effective_retry (retry_count h) < MAX_RETRIES
             then updateRetryCount (row_id h) (effective_retry (retry_count h) + 1) e (queue w)
             else delete (row_id h) (queue w)))"
proof -
  let ?m = "\<lparr>sessionId = session_id h, threadId = thread_id h, webhookBody = b,
             id' = row_id h, createdAt = created_at h, retryCount = retry_count h,
             lastError = last_error h\<rparr>"
  let ?w0 = "called (Dequeue BATCH_SIZE) w"
  have deq: "dequeue B BATCH_SIZE (queue w) = (Inr [?m], queue w)"
    by (simp add: dequeue_def select_oldest_def BATCH_SIZE_def head row_to_message_def parses)
  from fail obtain e where e: "postWebhook D (posts ?w0) (delivery_input D ?m) = Inl e"
    by blast
  have body: "snd (poll_body B D S sig w) =
      sleep S POLL_INTERVAL_MS (processMessage D S ?m ?w0)"
    using live by (simp add: poll_body_def deq Let_def)
  have pm: "processMessage D S ?m ?w0 =
      on_error ?m e (called (PostWebhook (delivery_input D ?m)) ?w0)"
    using quiet by (simp add: processMessage_failure [OF e] await_postWebhook_def)
  show ?thesis
    using live quiet
    by (auto simp: body pm queue_on_error sleep_def aborted_def)
qed

lemma rounds_Suc: "rounds B D S sig (Suc n) w = snd (poll_body B D S sig (rounds B D S sig n w))"
  by (simp add: rounds_def)

lemma failed_rounds:
  assumes head: "sort_key fifo_key (rows (queue w)) = h # hs"
    and fresh: "retry_count h = Some 0"
    and parses: "JSON_parse_body B (webhook_body h) = Inr b"
    and fail: "\<forall>k i. \<exists>e. postWebhook D k i = Inl e"
    and quiet: "\<forall>k. \<not> stop_in_flight S k \<and> \<not> stop_in_sleep S k"
    and live: "\<not> aborted sig w"
  shows "n \<le> 5 \<Longrightarrow>
         \<not> aborted sig (rounds B D S sig n w) \<and>
         (\<exists>e hs'. sort_key fifo_key (rows (queue (rounds B D S sig n w))) =
                    h\<lparr>retry_count := Some (int n), last_error := e\<rparr> # hs')"
proof (induction n)
  case 0
  have "h\<lparr>retry_count := Some 0, last_error := last_error h\<rparr> = h"
    using fresh by simp
  then show ?case
    using live head by (auto simp: rounds_def intro!: exI [of _ "last_error h"])
next
  case (Suc n)
  let ?v = "rounds B D S sig n w"
  from Suc obtain e hs' where
    live': "\<not> aborted sig ?v" and
    head': "sort_key fifo_key (rows (queue ?v)) = h\<lparr>retry_count := Some (int n), last_error := e\<rparr> # hs'"
    by auto
  let ?h = "h\<lparr>retry_count := Some (int n), last_error := e\<rparr>"
  have p: "JSON_parse_body B (webhook_body ?h) = Inr b"
    using parses by simp
  from Suc.prems have lt: "effective_retry (retry_count ?h) < MAX_RETRIES"
    by (simp add: effective_retry_def MAX_RETRIES_def)
  from failed_round [OF head' p fail quiet live'] lt obtain e' where
    live'': "\<not> aborted sig (snd (poll_body B D S sig ?v))" and
    q: "queue (snd (poll_body B D S sig ?v)) =
          updateRetryCount (row_id h) (int n + 1) e' (queue ?v)"
    by (auto simp: effective_retry_def)
  have "sort_key fifo_key (rows (queue (snd (poll_body B D S sig ?v)))) =
          h\<lparr>retry_count := Some (int (Suc n)), last_error := Some e'\<rparr> #
          map (\<lambda>r. if row_id r = row_id h
                    then r\<lparr>retry_count := Some (int n + 1), last_error := Some e'\<rparr> else r) hs'"
    by (simp add: q sorted_rows_updateRetryCount head' add.commute)
  with live'' show ?case
    by (auto simp: rounds_Suc)
qed

lemma discarded_at_sixth:
  assumes head: "sort_key fifo_key (rows (queue w)) = h # hs"
    and fresh: "retry_count h = Some 0"
    and parses: "JSON_parse_body B (webhook_body h) = Inr b"
    and fail: "\<forall>k i. \<exists>e. postWebhook D k i = Inl e"
    and quiet: "\<forall>k. \<not> stop_in_flight S k \<and> \<not> stop_in_sleep S k"
    and live: "\<not> aborted sig w"
  shows "row_id h \<notin> row_id ` set (rows (queue (rounds B D S sig 6 w)))"
proof -
  let ?v = "rounds B D S sig 5 w"
  from failed_rounds [OF assms, of 5] obtain e hs' where
    live': "\<not> aborted sig ?v" and
    head': "sort_key fifo_key (rows (queue ?v)) = h\<lparr>retry_count := Some 5, last_error := e\<rparr> # hs'"
    by auto
  let ?h = "h\<lparr>retry_count := Some 5, last_error := e\<rparr>"
  have p: "JSON_parse_body B (webhook_body ?h) = Inr b"
    using parses by simp
  from failed_round [OF head' p fail quiet live']
  have "queue (snd (poll_body B D S sig ?v)) = delete (row_id h) (queue ?v)"
    by (auto simp: effective_retry_def MAX_RETRIES_def)
  moreover have "rounds B D S sig 6 w = snd (poll_body B D S sig ?v)"
    using rounds_Suc [of B D S sig 5 w] by (simp add: eval_nat_numeral)
  ultimately show ?thesis
    by (auto simp: delete_def)
qed

text \<open>
  Claim C2. When the delivery of a message fails, with \<open>r\<close> its retry count (0 when
  absent): if \<open>r < 5\<close> the worker calls \<^verbatim>\<open>updateRetryCount(id, r + 1, errorMessage)\<close>, emits a
  warning alert and leaves every row in the queue; if \<open>r \<ge> 5\<close> it emits an error alert and
  deletes the row, without calling \<^verbatim>\<open>updateRetryCount\<close>. So the oldest row, enqueued with
  retry count 0, is still the oldest row, with retry count \<open>n\<close>, after \<open>n \<le> 5\<close> failed
  rounds of the loop, and is gone after the sixth.
\<close>

theorem retry_bound:
  "(\<forall>err. postWebhook D (posts w) (delivery_input D m) = Inl err \<longrightarrow>
      (effective_retry (retryCount m) < 5 \<longrightarrow>
         calls (processMessage D S m w) =
           calls w @ [PostWebhook (delivery_input D m)] @
           (if stop_in_flight S (posts w) then [Stop] else []) @
           [UpdateRetryCount (id' m) (effective_retry (retryCount m) + 1)
              (if message_of err = [] then ''Unknown error'' else message_of err),
            MaybeAlertError (retry_alert (id' m) (effective_retry (retryCount m)) err)] \<and>
         variant (retry_alert (id' m) (effective_retry (retryCount m)) err) = ToastWarning \<and>
         queue (processMessage D S m w) =
           updateRetryCount (id' m) (effective_retry (retryCount m) + 1)
             (if message_of err = [] then ''Unknown error'' else message_of err) (queue w) \<and>
         map row_id (rows (queue (processMessage D S m w))) = map row_id (rows (queue w))) \<and>
      (5 \<le> effective_retry (retryCount m) \<longrightarrow>
         calls (processMessage D S m w) =
           calls w @ [PostWebhook (delivery_input D m)] @
           (if stop_in_flight S (posts w) then [Stop] else []) @
           [MaybeAlertError (discard_alert (id' m)), Delete (id' m)] \<and>
         variant (discard_alert (id' m)) = ToastError \<and>
         queue (processMessage D S m w) = delete (id' m) (queue w))) \<and>
   (sort_key fifo_key (rows (queue w)) = h # hs \<and> retry_count h = Some 0 \<and>
    JSON_parse_body B (webhook_body h) = Inr b \<and>
    (\<forall>k i. \<exists>e. postWebhook D k i = Inl e) \<and>
    (\<forall>k. \<not> stop_in_flight S k \<and> \<not> stop_in_sleep S k) \<and> \<not> aborted sig w \<longrightarrow>
      (\<forall>n \<le> 5. \<exists>e hs'. sort_key fifo_key (rows (queue (rounds B D S sig n w))) =
                    h\<lparr>retry_count := Some (int n), last_error := e\<rparr> # hs') \<and>
      row_id h \<notin> row_id ` set (rows (queue (rounds B D S sig 6 w))))"
proof (intro conjI allI impI)
  fix err
  assume f: "postWebhook D (posts w) (delivery_input D m) = Inl err"
  note pm = processMessage_failure [OF f, of S]
  {
    assume "effective_retry (retryCount m) < 5"
    then show "calls (processMessage D S m w) =
           calls w @ [PostWebhook (delivery_input D m)] @
           (if stop_in_flight S (posts w) then [Stop] else []) @
           [UpdateRetryCount (id' m) (effective_retry (retryCount m) + 1)
              (if message_of err = [] then ''Unknown error'' else message_of err),
            MaybeAlertError (retry_alert (id' m) (effective_retry (retryCount m)) err)]"
      and "queue (processMessage D S m w) =
           updateRetryCount (id' m) (effective_retry (retryCount m) + 1)
             (if message_of err = [] then ''Unknown error'' else message_of err) (queue w)"
      and "map row_id (rows (queue (processMessage D S m w))) = map row_id (rows (queue w))"
      by (simp_all add: pm on_error_calls queue_on_error MAX_RETRIES_def updateRetryCount_def
          comp_def if_distrib cong: if_cong)
  }
  show "variant (retry_alert (id' m) (effective_retry (retryCount m)) err) = ToastWarning"
    by (simp add: retry_alert_def)
  {
    assume "5 \<le> effective_retry (retryCount m)"
    then show "calls (processMessage D S m w) =
           calls w @ [PostWebhook (delivery_input D m)] @
           (if stop_in_flight S (posts w) then [Stop] else []) @
           [MaybeAlertError (discard_alert (id' m)), Delete (id' m)]"
      and "queue (processMessage D S m w) = delete (id' m) (queue w)"
      by (simp_all add: pm on_error_calls queue_on_error MAX_RETRIES_def)
  }
  show "variant (discard_alert (id' m)) = ToastError"
    by (simp add: discard_alert_def)
next
  fix n :: nat
  assume a: "sort_key fifo_key (rows (queue w)) = h # hs \<and> retry_count h = Some 0 \<and>
    JSON_parse_body B (webhook_body h) = Inr b \<and>
    (\<forall>k i. \<exists>e. postWebhook D k i = Inl e) \<and>
    (\<forall>k. \<not> stop_in_flight S k \<and> \<not> stop_in_sleep S k) \<and> \<not> aborted sig w"
    and n: "n \<le> 5"
  then show "\<exists>e hs'. sort_key fifo_key (rows (queue (rounds B D S sig n w))) =
                    h\<lparr>retry_count := Some (int n), last_error := e\<rparr> # hs'"
    using failed_rounds [of w h hs B b D S sig n] by blast
next
  assume a: "sort_key fifo_key (rows (queue w)) = h # hs \<and> retry_count h = Some 0 \<and>
    JSON_parse_body B (webhook_body h) = Inr b \<and>
    (\<forall>k i. \<exists>e. postWebhook D k i = Inl e) \<and>
    (\<forall>k. \<not> stop_in_flight S k \<and> \<not> stop_in_sleep S k) \<and> \<not> aborted sig w"
  then show "row_id h \<notin> row_id ` set (rows (queue (rounds B D S sig 6 w)))"
    using discarded_at_sixth [of w h hs B b D S sig] by blast
qed

theorem retry_bound_witness:
  "calls (processMessage (test_deps (Inl (Error ''Network error''))) quiet first_message
            (new_worker first_db)) =
     [PostWebhook \<lparr>webhookUrl_in = ''https://example.com/webhook'', threadId_in = None,
                   wait_in = Some True,
                   body_in = \<lparr>content = Some ''first'', username = None, avatar_url = None,
                     thread_name = Some ''thread-s1'', embeds = None, allowed_mentions = None\<rparr>\<rparr>,
      UpdateRetryCount 1 1 ''Network error'',
      MaybeAlertError \<lparr>key = ''discord_queue_retry:1'', title = ''Discord notification retry'',
         message = ''Failed to send notification. Retry 1/5. Error: Network error'',
         variant = ToastWarning\<rparr>] \<and>
   1 \<notin> row_id ` set (rows (queue (rounds content_codec (test_deps (Inl (Error ''Network error'')))
                 quiet 0 6 (new_worker first_db))))"
proof -
  let ?D = "test_deps (Inl (Error ''Network error''))"
  let ?h = "\<lparr>row_id = 1, session_id = ''s1'', thread_id = None, webhook_body = ''first'',
             created_at = 100, retry_count = Some 0, last_error = None\<rparr>"
  have rows: "rows first_db = [?h]"
    by (simp add: first_db_def enqueue_def fresh_id_def empty_db_def text_message_def)
  have f: "postWebhook ?D (posts (new_worker first_db)) (delivery_input ?D first_message) =
             Inl (Error ''Network error'')"
    by (simp add: test_deps_def)
  have r: "effective_retry (retryCount first_message) < 5"
    by (simp add: effective_retry_def first_message_def)
  have b: "sort_key fifo_key (rows (queue (new_worker first_db))) = ?h # [] \<and>
      retry_count ?h = Some 0 \<and>
      JSON_parse_body content_codec (webhook_body ?h) =
        Inr \<lparr>content = Some ''first'', username = None, avatar_url = None,
                     thread_name = None, embeds = None, allowed_mentions = None\<rparr> \<and>
      (\<forall>k i. \<exists>e. postWebhook ?D k i = Inl e) \<and>
      (\<forall>k. \<not> stop_in_flight quiet k \<and> \<not> stop_in_sleep quiet k) \<and>
      \<not> aborted 0 (new_worker first_db)"
    by (simp add: rows new_worker_def test_deps_def quiet_def aborted_def)
  from retry_bound [of ?D "new_worker first_db" first_message quiet ?h "[]" content_codec _ 0]
    f r b
  have 1: "calls (processMessage ?D quiet first_message (new_worker first_db)) =
           calls (new_worker first_db) @ [PostWebhook (delivery_input ?D first_message)] @
           (if stop_in_flight quiet (posts (new_worker first_db)) then [Stop] else []) @
           [UpdateRetryCount (id' first_message) (effective_retry (retryCount first_message) + 1)
              (if message_of (Error ''Network error'') = [] then ''Unknown error''
               else message_of (Error ''Network error'')),
            MaybeAlertError (retry_alert (id' first_message)
               (effective_retry (retryCount first_message)) (Error ''Network error''))]"
    and 2: "row_id ?h \<notin> row_id ` set (rows (queue (rounds content_codec ?D quiet 0 6
                 (new_worker first_db))))"
    by blast+
  have 3: "show_int 1 = ''1''" "show_int 5 = ''5''"
    by code_simp+
  from 1 2 show ?thesis
    by (simp add: delivery_input_def creation_input_def first_message_def test_deps_def
        quiet_def new_worker_def retry_alert_def effective_retry_def MAX_RETRIES_def 3)
qed

lemma snd_dequeue [simp]: "snd (dequeue B n db) = db"
  by (simp add: dequeue_def)

lemma dequeue_empty: "rows db = [] \<Longrightarrow> dequeue B n db = (Inr [], db)"
  by (simp add: dequeue_def select_oldest_def)

lemma poll_body_empty:
  "fst (dequeue B BATCH_SIZE (queue w)) = Inr [] \<Longrightarrow>
     poll_body B D S sig w = (Returned, stop (called (Dequeue BATCH_SIZE) w))"
  by (simp add: poll_body_def dequeue_def)

declare poll.simps [simp del]

lemma poll_empty:
  "\<not> aborted sig w \<Longrightarrow> fst (dequeue B BATCH_SIZE (queue w)) = Inr [] \<Longrightarrow>
     poll B D S sig w = (None, stop (called (Dequeue BATCH_SIZE) w))"
  by (subst poll.simps) (simp add: poll_body_empty)

lemma start_empty:
  assumes "\<not> isRunning w" "rows (queue w) = []"
  shows "start B D S w =
           (None, w\<lparr>isRunning := False, signals := signals w @ [True],
                    abortController := Some (length (signals w)),
                    calls := calls w @ [Dequeue BATCH_SIZE]\<rparr>)"
proof -
  let ?w1 = "w\<lparr>isRunning := True, signals := signals w @ [False],
               abortController := Some (length (signals w))\<rparr>"
  have "\<not> aborted (length (signals w)) ?w1"
    by (simp add: aborted_def)
  moreover have "fst (dequeue B BATCH_SIZE (queue ?w1)) = Inr []"
    using assms(2) by (simp add: dequeue_empty)
  ultimately have "poll B D S (length (signals w)) ?w1 = (None, stop (called (Dequeue BATCH_SIZE) ?w1))"
    by (rule poll_empty)
  then show ?thesis
    using assms(1) by (simp add: start_def stop_def called_def)
qed

lemma processMessage_shape:
  "\<exists>q eff. processMessage D S m w =
       (stop_requested (stop_in_flight S (posts w)) (called (PostWebhook (delivery_input D m)) w))
         \<lparr>queue := q,
          calls := calls w @ PostWebhook (delivery_input D m) #
                     (if stop_in_flight S (posts w) then [Stop] else []) @ eff\<rparr> \<and>
       list_all is_effect eff"
proof (cases "postWebhook D (posts w) (delivery_input D m)")
  case (Inl err)
  show ?thesis
  proof (cases "effective_retry (retryCount m) < MAX_RETRIES")
    case True
    then show ?thesis
      using Inl
      by (intro exI [of _ "queue (processMessage D S m w)"]
          exI [of _ "[UpdateRetryCount (id' m) (effective_retry (retryCount m) + 1)
              (if message_of err = [] then ''Unknown error'' else message_of err),
            MaybeAlertError (retry_alert (id' m) (effective_retry (retryCount m)) err)]"])
        (simp add: processMessage_failure await_postWebhook_def on_error_def effective_retry_def
          called_def stop_requested_def stop_def Let_def split: option.splits)
  next
    case False
    then show ?thesis
      using Inl
      by (intro exI [of _ "queue (processMessage D S m w)"]
          exI [of _ "[MaybeAlertError (discard_alert (id' m)), Delete (id' m)]"])
        (simp add: processMessage_failure await_postWebhook_def on_error_def effective_retry_def
          called_def stop_requested_def stop_def Let_def split: option.splits)
  qed
next
  case (Inr res)
  let ?created = "threadId m = None \<or> threadId m = Some []"
  let ?eff = "(case res of
                 Some r \<Rightarrow>
                   if ?created \<and> channel_id r \<noteq> []
                   then UpdateThreadId (sessionId m) (channel_id r) #
                        (if onThreadCreated D then [OnThreadCreated (sessionId m) (channel_id r)] else [])
                   else []
               | None \<Rightarrow> []) @ [Delete (id' m)]"
  show ?thesis
    using Inr
    by (intro exI [of _ "queue (processMessage D S m w)"] exI [of _ ?eff])
      (simp add: processMessage_input await_postWebhook_def thread_created_def
        called_def stop_requested_def stop_def Let_def split: option.splits)
qed

lemma after_stop_append: "Stop \<notin> set xs \<Longrightarrow> after_stop (xs @ ys) = after_stop ys"
  by (induction xs) auto

lemma effects_plain:
  "list_all is_effect eff \<Longrightarrow>
     Stop \<notin> set eff \<and> filter is_sleep eff = [] \<and> (\<forall>c\<in>set eff. \<not> is_post c \<and> \<not> is_dequeue c)"
  by (induction eff) (auto elim: is_effect.elims)

lemma aborted_stop_requested:
  "abortController w = Some sig \<Longrightarrow> sig < length (signals w) \<Longrightarrow>
     aborted sig (stop_requested b w) = (aborted sig w \<or> b)"
  by (auto simp: stop_requested_def stop_def aborted_def called_def)

lemma isRunning_stop_requested: "isRunning (stop_requested b w) = (isRunning w \<and> \<not> b)"
  by (simp add: stop_requested_def)

lemma posts_called [simp]: "posts (called c w) = posts w + (if is_post c then 1 else 0)"
  by (simp add: posts_def)

lemma round_shape:
  assumes body: "poll_body B D S sig w = (Continue, w')"
    and live: "\<not> aborted sig w"
    and inv: "loop_inv sig w"
  shows "loop_inv sig w' \<and>
         (\<exists>r. calls w' = calls w @ r \<and> (if aborted sig w' then winds_down r else Stop \<notin> set r))"
proof -
  from body obtain messages db where
    deq: "dequeue B BATCH_SIZE (queue w) = (Inr messages, db)" and ne: "messages \<noteq> []"
    and w': "w' = sleep S POLL_INTERVAL_MS
                    (process_batch D S sig messages (called (Dequeue BATCH_SIZE) (w\<lparr>queue := db\<rparr>)))"
    by (auto simp: poll_body_def Let_def split: prod.splits sum.splits if_splits)
  from dequeue_batch [OF deq ne] obtain m where db: "db = queue w" and ms: "messages = [m]"
    by blast
  let ?w0 = "called (Dequeue BATCH_SIZE) w"
  let ?b1 = "stop_in_flight S (posts w)"
  let ?X = "stop_requested ?b1 (called (PostWebhook (delivery_input D m)) ?w0)"
  from processMessage_shape [of D S m ?w0] obtain q eff where
    pm: "processMessage D S m ?w0 =
           ?X\<lparr>queue := q,
              calls := calls w @ Dequeue BATCH_SIZE # PostWebhook (delivery_input D m) #
                         (if ?b1 then [Stop] else []) @ eff\<rparr>"
    and eff: "list_all is_effect eff"
    by auto
  let ?pm = "processMessage D S m ?w0"
  let ?b2 = "stop_in_sleep S (sleeps ?pm)"
  have w'2: "w' = stop_requested ?b2 (called (Sleep POLL_INTERVAL_MS) ?pm)"
    using live by (simp add: w' ms db sleep_def)
  from inv have ac: "abortController w = Some sig" and rng: "sig < length (signals w)"
    and idle: "aborted sig w \<longrightarrow> \<not> isRunning w"
    by (auto simp: loop_inv_def)
  have ac_pm: "abortController ?pm = Some sig" and len_pm: "sig < length (signals ?pm)"
    using ac rng by (simp_all add: pm)
  have ab_X: "aborted sig ?X = ?b1"
    using live ac rng by (simp add: aborted_stop_requested)
  have ab_pm: "aborted sig ?pm = ?b1"
    using ab_X by (simp add: pm aborted_def)
  have run_pm: "isRunning ?pm = (isRunning w \<and> \<not> ?b1)"
    by (simp add: pm isRunning_stop_requested)
  have ab_w': "aborted sig w' = (?b1 \<or> ?b2)"
    using ac_pm len_pm ab_pm by (simp add: w'2 aborted_stop_requested)
  have run_w': "isRunning w' = (isRunning w \<and> \<not> ?b1 \<and> \<not> ?b2)"
    by (simp add: w'2 isRunning_stop_requested run_pm)
  have inv': "loop_inv sig w'"
    using ac_pm len_pm ab_w' run_w' by (simp add: loop_inv_def w'2)
  let ?r = "Dequeue BATCH_SIZE # PostWebhook (delivery_input D m) #
              (if ?b1 then [Stop] else []) @ eff @ Sleep POLL_INTERVAL_MS #
              (if ?b2 then [Stop] else [])"
  have calls': "calls w' = calls w @ ?r"
    by (simp add: w'2) (simp add: pm)
  from effects_plain [OF eff] have plain: "Stop \<notin> set eff" "filter is_sleep eff = []"
    "\<forall>c\<in>set eff. \<not> is_post c \<and> \<not> is_dequeue c"
    by auto
  have "if aborted sig w' then winds_down ?r else Stop \<notin> set ?r"
  proof (cases ?b1)
    case True
    then show ?thesis
      using plain by (auto simp: ab_w' winds_down_def)
  next
    case False
    show ?thesis
    proof (cases ?b2)
      case True
      have "after_stop ?r = []"
        using False True plain(1) by (simp add: after_stop_append)
      then show ?thesis
        using True by (simp add: ab_w' winds_down_def)
    next
      case False
      with \<open>\<not> ?b1\<close> show ?thesis
        using plain(1) by (simp add: ab_w')
    qed
  qed
  with inv' calls' show ?thesis by blast
qed

lemma poll_run:
  "loop_inv sig w \<Longrightarrow>
     (\<exists>t. calls (snd (poll B D S sig w)) = calls w @ t \<and> winds_down t) \<and>
     (fst (poll B D S sig w) = None \<longrightarrow> \<not> isRunning (snd (poll B D S sig w)))"
proof (induction B D S sig w rule: poll.induct)
  case (1 B D S sig w)
  show ?case
  proof (cases "aborted sig w")
    case True
    then have "poll B D S sig w = (None, w)"
      by (simp add: poll.simps [of B D S sig w])
    then show ?thesis
      using True "1.prems" by (simp add: loop_inv_def winds_down_def)
  next
    case False
    obtain x w' where body: "poll_body B D S sig w = (x, w')"
      by (cases "poll_body B D S sig w")
    show ?thesis
    proof (cases x)
      case Continue
      with body have b: "poll_body B D S sig w = (Continue, w')" by simp
      from round_shape [OF b False "1.prems"] obtain r where
        inv': "loop_inv sig w'" and r: "calls w' = calls w @ r"
        and rr: "if aborted sig w' then winds_down r else Stop \<notin> set r"
        by blast
      have p: "poll B D S sig w = poll B D S sig w'"
        using False b by (simp add: poll.simps [of B D S sig w])
      note IH = "1.IH" [OF False b [symmetric] refl inv']
      from IH have idle:
        "fst (poll B D S sig w') = None \<longrightarrow> \<not> isRunning (snd (poll B D S sig w'))"
        by (rule conjunct2)
      from IH [THEN conjunct1] obtain t where
        t: "calls (snd (poll B D S sig w')) = calls w' @ t" and wd: "winds_down t"
        by (elim exE conjE)
      show ?thesis
      proof (cases "aborted sig w'")
        case True
        then have "poll B D S sig w' = (None, w')"
          by (simp add: poll.simps [of B D S sig w'])
        with True rr r idle show ?thesis
          by (simp add: p)
      next
        case False
        with rr have "Stop \<notin> set r" by simp
        then have "winds_down (r @ t)"
          using wd by (simp add: winds_down_def after_stop_append)
        with t r idle show ?thesis
          by (simp add: p)
      qed
    next
      case Returned
      with body obtain messages db where
        "dequeue B BATCH_SIZE (queue w) = (Inr messages, db)" "messages = []"
        "w' = stop (called (Dequeue BATCH_SIZE) (w\<lparr>queue := db\<rparr>))"
        by (auto simp: poll_body_def Let_def split: prod.splits sum.splits if_splits)
      moreover have "poll B D S sig w = (None, w')"
        using False body Returned by (simp add: poll.simps [of B D S sig w])
      ultimately show ?thesis
        by (simp add: winds_down_def)
    next
      case (Threw e)
      with body obtain db where
        "w' = called (Dequeue BATCH_SIZE) (w\<lparr>queue := db\<rparr>)"
        by (auto simp: poll_body_def Let_def split: prod.splits sum.splits if_splits)
      moreover have "poll B D S sig w = (Some e, w')"
        using False body Threw by (simp add: poll.simps [of B D S sig w])
      ultimately show ?thesis
        by (simp add: winds_down_def)
    qed
  qed
qed

lemma start_run:
  "winds_down (drop (length (calls w)) (calls (snd (start B D S w)))) \<and>
   (\<not> isRunning w \<longrightarrow> fst (start B D S w) = None \<longrightarrow> \<not> isRunning (snd (start B D S w)))"
proof (cases "isRunning w")
  case True
  then show ?thesis by (simp add: start_def winds_down_def)
next
  case False
  let ?w1 = "w\<lparr>isRunning := True, signals := signals w @ [False],
               abortController := Some (length (signals w))\<rparr>"
  have "loop_inv (length (signals w)) ?w1"
    by (simp add: loop_inv_def aborted_def)
  from poll_run [OF this, of B D S] False show ?thesis
    by (auto simp: start_def)
qed

text \<open>
  Claim C7. Whenever the poll loop, its signal not aborted, reads an empty batch, the
  worker stops itself and the loop returns, with no \<^verbatim>\<open>stop()\<close> from outside: the worker is not
  running afterwards. In particular \<^verbatim>\<open>start()\<close> on an idle worker with an empty queue returns
  after one dequeue, leaves the queue as it was and the worker not running, and a second
  \<^verbatim>\<open>start()\<close> polls again in the same way. Whenever \<^verbatim>\<open>start()\<close> on an idle worker returns, the
  worker is not running.
\<close>

theorem auto_stop:
  "(\<not> aborted sig w \<and> fst (dequeue B BATCH_SIZE (queue w)) = Inr [] \<longrightarrow>
      poll B D S sig w = (None, stop (called (Dequeue BATCH_SIZE) w)) \<and>
      \<not> isRunning (snd (poll B D S sig w))) \<and>
   (\<not> isRunning w \<and> rows (queue w) = [] \<longrightarrow>
      fst (start B D S w) = None \<and>
      \<not> isRunning (snd (start B D S w)) \<and>
      calls (snd (start B D S w)) = calls w @ [Dequeue BATCH_SIZE] \<and>
      queue (snd (start B D S w)) = queue w \<and>
      fst (start B D S (snd (start B D S w))) = None \<and>
      \<not> isRunning (snd (start B D S (snd (start B D S w)))) \<and>
      calls (snd (start B D S (snd (start B D S w)))) =
        calls w @ [Dequeue BATCH_SIZE, Dequeue BATCH_SIZE]) \<and>
   (\<not> isRunning w \<and> fst (start B D S w) = None \<longrightarrow> \<not> isRunning (snd (start B D S w)))"
proof (intro conjI impI)
  assume a: "\<not> aborted sig w \<and> fst (dequeue B BATCH_SIZE (queue w)) = Inr []"
  then show "poll B D S sig w = (None, stop (called (Dequeue BATCH_SIZE) w))"
    by (simp add: poll_empty)
  then show "\<not> isRunning (snd (poll B D S sig w))"
    by simp
next
  assume a: "\<not> isRunning w \<and> rows (queue w) = []"
  let ?w' = "w\<lparr>isRunning := False, signals := signals w @ [True],
                    abortController := Some (length (signals w)),
                    calls := calls w @ [Dequeue BATCH_SIZE]\<rparr>"
  have s1: "start B D S w = (None, ?w')"
    using a by (simp add: start_empty)
  have s2: "start B D S ?w' =
      (None, ?w'\<lparr>isRunning := False, signals := signals ?w' @ [True],
                    abortController := Some (length (signals ?w')),
                    calls := calls ?w' @ [Dequeue BATCH_SIZE]\<rparr>)"
    using a by (intro start_empty) simp_all
  show "fst (start B D S w) = None" "\<not> isRunning (snd (start B D S w))"
    "calls (snd (start B D S w)) = calls w @ [Dequeue BATCH_SIZE]"
    "queue (snd (start B D S w)) = queue w"
    by (simp_all add: s1)
  show "fst (start B D S (snd (start B D S w))) = None"
    "\<not> isRunning (snd (start B D S (snd (start B D S w))))"
    "calls (snd (start B D S (snd (start B D S w)))) =
        calls w @ [Dequeue BATCH_SIZE, Dequeue BATCH_SIZE]"
    unfolding s1 snd_conv s2 by simp_all
next
  assume "\<not> isRunning w \<and> fst (start B D S w) = None"
  then show "\<not> isRunning (snd (start B D S w))"
    using start_run [of w B D S] by blast
qed

theorem auto_stop_witness:
  "start content_codec (test_deps (Inr None)) quiet (new_worker empty_db) =
     (None, \<lparr>queue = empty_db, isRunning = False, abortController = Some 0, signals = [True],
             calls = [Dequeue 1]\<rparr>) \<and>
   calls (snd (start content_codec (test_deps (Inr None)) quiet
            (snd (start content_codec (test_deps (Inr None)) quiet (new_worker empty_db))))) =
     [Dequeue 1, Dequeue 1] \<and>
   \<not> isRunning (snd (start content_codec (test_deps (Inr None)) quiet
            (new_worker (enqueue content_codec 100 (text_message ''s1'' None ''first'') empty_db))))"
proof -
  let ?B = content_codec and ?D = "test_deps (Inr None)" and ?w = "new_worker empty_db"
  let ?v = "new_worker (enqueue content_codec 100 (text_message ''s1'' None ''first'') empty_db)"
  have idle: "\<not> isRunning ?w \<and> rows (queue ?w) = []"
    by (simp add: new_worker_def empty_db_def)
  have e: "\<not> aborted 0 ?w \<and> fst (dequeue ?B BATCH_SIZE (queue ?w)) = Inr []"
    by (simp add: new_worker_def empty_db_def aborted_def dequeue_empty)
  from auto_stop [of 0 ?w ?B ?D quiet] idle e
  have 1: "fst (start ?B ?D quiet ?w) = None" "\<not> isRunning (snd (start ?B ?D quiet ?w))"
    "calls (snd (start ?B ?D quiet ?w)) = [Dequeue 1]"
    "queue (snd (start ?B ?D quiet ?w)) = empty_db"
    "calls (snd (start ?B ?D quiet (snd (start ?B ?D quiet ?w)))) = [Dequeue 1, Dequeue 1]"
    by (simp_all add: new_worker_def BATCH_SIZE_def)
  have 2: "\<not> isRunning ?v \<and> fst (start ?B ?D quiet ?v) = None"
    by code_simp
  from auto_stop [of 0 ?v ?B ?D quiet] 2 have 3: "\<not> isRunning (snd (start ?B ?D quiet ?v))"
    by blast
  have 4: "abortController (snd (start ?B ?D quiet ?w)) = Some 0"
    "signals (snd (start ?B ?D quiet ?w)) = [True]"
    by code_simp+
  have "snd (start ?B ?D quiet ?w) =
     \<lparr>queue = empty_db, isRunning = False, abortController = Some 0, signals = [True],
             calls = [Dequeue 1]\<rparr>"
    using 1 4 by (cases "snd (start ?B ?D quiet ?w)") simp
  with 1 3 show ?thesis
    by (simp add: prod_eq_iff)
qed

lemma stop_in_flight_round:
  assumes live: "\<not> aborted sig w"
    and ac: "abortController w = Some sig" and rng: "sig < length (signals w)"
    and deq: "fst (dequeue B BATCH_SIZE (queue w)) = Inr [m]"
    and stp: "stop_in_flight S (posts w)"
  shows "poll B D S sig w =
           (None, sleep S POLL_INTERVAL_MS (processMessage D S m (called (Dequeue BATCH_SIZE) w)))"
proof -
  let ?w0 = "called (Dequeue BATCH_SIZE) w"
  let ?pm = "processMessage D S m ?w0"
  let ?w' = "sleep S POLL_INTERVAL_MS ?pm"
  have d: "dequeue B BATCH_SIZE (queue w) = (Inr [m], queue w)"
    using deq by (simp add: dequeue_def)
  have body: "poll_body B D S sig w = (Continue, ?w')"
    using live by (simp add: poll_body_def d)
  from processMessage_shape [of D S m ?w0] obtain q eff where
    pm: "?pm =
       (stop_requested (stop_in_flight S (posts ?w0)) (called (PostWebhook (delivery_input D m)) ?w0))
         \<lparr>queue := q,
          calls := calls ?w0 @ PostWebhook (delivery_input D m) #
                     (if stop_in_flight S (posts ?w0) then [Stop] else []) @ eff\<rparr>"
    by blast
  have "aborted sig ?pm"
    using stp ac rng by (subst pm) (simp add: aborted_def stop_requested_def stop_def)
  moreover have "abortController ?pm = Some sig" "sig < length (signals ?pm)"
    using ac rng by (simp_all add: pm)
  ultimately have "aborted sig ?w'"
    by (simp add: sleep_def aborted_stop_requested)
  then have "poll B D S sig ?w' = (None, ?w')"
    by (simp add: poll.simps [of B D S sig ?w'])
  then show ?thesis
    using live by (simp add: poll.simps [of B D S sig w] body)
qed

text \<open>
  Claim C8, as amended. The loop reads the cancellation flag at the head of each turn and
  before each message of a batch, never during a delivery: once the flag is set the loop
  returns and no message of a batch is processed; a delivery in flight when \<^verbatim>\<open>stop()\<close> arrives
  has the same effect on the queue and makes the same calls as without the request; and in
  every run of \<^verbatim>\<open>start()\<close> the calls that follow the first \<^verbatim>\<open>stop()\<close> hold no dequeue and no
  post: they are the calls that complete the delivery in flight and at most one sleep. The
  sleep after the batch is entered without reading the flag: when \<^verbatim>\<open>stop()\<close> arrives during
  the delivery of the message of a turn, the loop completes the delivery, sleeps, and only
  then returns.
\<close>

theorem cooperative_cancellation:
  "(aborted sig w \<longrightarrow> poll B D S sig w = (None, w) \<and> process_batch D S sig ms w = w) \<and>
   queue (processMessage D S m w) = queue (processMessage D (never_in_flight S) m w) \<and>
   filter (\<lambda>c. c \<noteq> Stop) (calls (processMessage D S m w)) =
     filter (\<lambda>c. c \<noteq> Stop) (calls (processMessage D (never_in_flight S) m w)) \<and>
   winds_down (drop (length (calls w)) (calls (snd (start B D S w)))) \<and>
   (\<not> aborted sig w \<and> abortController w = Some sig \<and> sig < length (signals w) \<and>
    fst (dequeue B BATCH_SIZE (queue w)) = Inr [m] \<and> stop_in_flight S (posts w) \<longrightarrow>
      poll B D S sig w =
        (None, sleep S POLL_INTERVAL_MS (processMessage D S m (called (Dequeue BATCH_SIZE) w))))"
proof (intro conjI impI)
  assume "\<not> aborted sig w \<and> abortController w = Some sig \<and> sig < length (signals w) \<and>
    fst (dequeue B BATCH_SIZE (queue w)) = Inr [m] \<and> stop_in_flight S (posts w)"
  then show "poll B D S sig w =
        (None, sleep S POLL_INTERVAL_MS (processMessage D S m (called (Dequeue BATCH_SIZE) w)))"
    by (intro stop_in_flight_round) simp_all
next
  assume a: "aborted sig w"
  then show "poll B D S sig w = (None, w)"
    by (simp add: poll.simps [of B D S sig w])
  from a show "process_batch D S sig ms w = w"
    by (cases ms) simp_all
next
  have S': "stop_in_flight (never_in_flight S) (posts w) = False"
    by (simp add: never_in_flight_def)
  show "queue (processMessage D S m w) = queue (processMessage D (never_in_flight S) m w)"
    by (cases "postWebhook D (posts w) (delivery_input D m)")
      (simp_all add: processMessage_input await_postWebhook_def queue_on_error Let_def S'
        split: option.splits)
  show "filter (\<lambda>c. c \<noteq> Stop) (calls (processMessage D S m w)) =
     filter (\<lambda>c. c \<noteq> Stop) (calls (processMessage D (never_in_flight S) m w))"
    by (cases "postWebhook D (posts w) (delivery_input D m)")
      (simp_all add: processMessage_input await_postWebhook_def on_error_calls Let_def S'
        split: option.splits)
next
  show "winds_down (drop (length (calls w)) (calls (snd (start B D S w))))"
    using start_run [of w B D S] by blast
qed

theorem sleep_after_stop_counterexample:
  "calls (snd (start content_codec (test_deps (Inr None))
      (quiet\<lparr>stop_in_flight := (\<lambda>k. k = 0)\<rparr>)
      (new_worker (enqueue content_codec 100 (text_message ''s1'' (Some ''thread1'') ''first'') empty_db))))
   = [Dequeue 1,
      PostWebhook \<lparr>webhookUrl_in = ''https://example.com/webhook'', threadId_in = Some ''thread1'',
                   wait_in = None,
                   body_in = \<lparr>content = Some ''first'', username = None, avatar_url = None,
                     thread_name = None, embeds = None, allowed_mentions = None\<rparr>\<rparr>,
      Stop, Delete 1, Sleep 1000]"
  by code_simp

theorem cooperative_cancellation_witness:
  "poll content_codec (test_deps (Inr None)) quiet 0
     \<lparr>queue = first_db, isRunning = False, abortController = Some 0, signals = [True],
      calls = [Dequeue 1]\<rparr> =
     (None, \<lparr>queue = first_db, isRunning = False, abortController = Some 0, signals = [True],
      calls = [Dequeue 1]\<rparr>) \<and>
   winds_down (calls (snd (start content_codec (test_deps (Inr None))
      (quiet\<lparr>stop_in_flight := (\<lambda>k. k = 0)\<rparr>) (new_worker first_db))))"
  using cooperative_cancellation [of 0
      "\<lparr>queue = first_db, isRunning = False, abortController = Some 0, signals = [True],
        calls = [Dequeue 1]\<rparr>" content_codec "test_deps (Inr None)" quiet "[]" first_message]
    cooperative_cancellation [of 0 "new_worker first_db" content_codec "test_deps (Inr None)"
      "quiet\<lparr>stop_in_flight := (\<lambda>k. k = 0)\<rparr>" "[]" first_message]
  by (simp add: aborted_def new_worker_def)

section \<open>Properties of the webhook transport\<close>











lemma parseRetryAfterFromText_sane:
  "parseRetryAfterFromText B t = Some v \<Longrightarrow> \<exists>x. v = Fin x \<and> 0 \<le> x"
  by (cases v)
    (auto simp: parseRetryAfterFromText_def split: if_splits sum.splits option.splits json.splits)

lemma parseRetryAfterFromHeader_sane:
  "parseRetryAfterFromHeader B r = Some v \<Longrightarrow> \<exists>x. v = Fin x \<and> 0 \<le> x"
  by (cases v)
    (auto simp: parseRetryAfterFromHeader_def Let_def split: if_splits option.splits)

lemma ceil_seconds_range:
  "0 \<le> x \<Longrightarrow> Math_ceil (js_mul (Fin x) MS_PER_SECOND) = PosInf \<or>
     (\<exists>y. Math_ceil (js_mul (Fin x) MS_PER_SECOND) = Fin y \<and> 0 \<le> y)"
  by (auto simp: MS_PER_SECOND_def js_round_def DBL_OVERFLOW_def)

text \<open>
  What the checks of the 429 path do give: with a configured default that is finite and not
  negative, a wait source that is absent or invalid is passed over (when both the body and
  the header give none, the wait is the default), and the wait is never NaN and never
  negative: it is a finite number \<open>\<ge> 0\<close>, or \<^verbatim>\<open>Infinity\<close>.
\<close>

theorem rate_limit_wait_range:
  assumes "waitOnRateLimitMs deps = Fin d" "0 \<le> d"
  shows "(parseRetryAfterFromText B (response_text r) = None \<and>
          parseRetryAfterFromHeader B r = None \<longrightarrow> rate_limit_wait B deps r = Fin d) \<and>
         (rate_limit_wait B deps r = PosInf \<or>
          (\<exists>y. rate_limit_wait B deps r = Fin y \<and> 0 \<le> y))"
proof -
  show ?thesis
  proof (cases "parseRetryAfterFromText B (response_text r)")
    case (Some v)
    with parseRetryAfterFromText_sane [OF Some] ceil_seconds_range show ?thesis
      by (auto simp: rate_limit_wait_def)
  next
    case None
    show ?thesis
    proof (cases "parseRetryAfterFromHeader B r")
      case (Some v)
      with None parseRetryAfterFromHeader_sane [OF Some] ceil_seconds_range show ?thesis
        by (auto simp: rate_limit_wait_def)
    next
      case None
      with \<open>parseRetryAfterFromText B (response_text r) = None\<close> assms show ?thesis
        by (simp add: rate_limit_wait_def)
    qed
  qed
qed

theorem rate_limit_wait_range_witness:
  "rate_limit_wait (reads ''{\"retry_after\":-1}'' (JObj [(''retry_after'', JNum (Fin (- 1)))]))
     (replies []) (reply 429 ''{\"retry_after\":-1}'') = Fin 10000"
  using rate_limit_wait_range [of "replies []" 10000
      "reads ''{\"retry_after\":-1}'' (JObj [(''retry_after'', JNum (Fin (- 1)))])"
      "reply 429 ''{\"retry_after\":-1}''"]
  by (simp add: replies_def DEFAULT_RATE_LIMIT_WAIT_MS_def parseRetryAfterFromText_def
      parseRetryAfterFromHeader_def response_text_def reply_def reads_def)

text \<open>
  Claim C10 fails on the code. A 429 response whose body is \<^verbatim>\<open>{"retry_after":1e308}\<close> passes
  the check of \<^verbatim>\<open>parseRetryAfterFromText\<close> (a finite number, not negative); the product with
  \<^verbatim>\<open>MS_PER_SECOND\<close> overflows, and the call sleeps for \<^verbatim>\<open>Infinity\<close> milliseconds.
\<close>

theorem rate_limit_wait_overflow:
  "fst (postDiscordWebhook
          (reads ''{\"retry_after\":1e308}'' (JObj [(''retry_after'', JNum (Fin (10 ^ 308)))]))
          (replies [reply 429 ''{\"retry_after\":1e308}'', reply 204 []]) plain_post) =
   [Fetch \<lparr>url = ''https://example.com/webhook'', search = [(''wait'', ''true'')],
           request_body = ''hello''\<rparr>,
    SleepImpl PosInf,
    Fetch \<lparr>url = ''https://example.com/webhook'', search = [(''wait'', ''true'')],
           request_body = ''hello''\<rparr>] \<and>
   \<not> Number_isFinite PosInf"
  by (simp add: postDiscordWebhook_def replies_def reply_def ok_def HTTP_STATUS_TOO_MANY_REQUESTS_def
      rate_limit_wait_def parseRetryAfterFromText_def response_text_def reads_def
      MS_PER_SECOND_def js_round_def DBL_OVERFLOW_def build_request_def withQuery_def
      plain_post_def Let_def)

end
